theory Spec2Isabelle
  imports Complex_Main "HOL-Library.AList"
begin

text \<open>
  A model of the server-side handler that turns a stored profile and submitted resume
  content into a PDF: the profile store, the template registry, the content normalizer,
  the merge into the document handed to the layout, the render pipeline and the file
  name of the download. Each definition follows the JavaScript source, whose line numbers
  the comments give; the functions of the JavaScript runtime the handler calls
  (\<open>JSON.parse\<close>, \<open>String.prototype.replace\<close>, property access) are modelled after
  their specification.
\<close>

section \<open>JavaScript values and errors\<close>

text \<open>
  The request handler works on what \<open>JSON.parse\<close> returns and on the object literals it
  builds itself, so one type of JavaScript values covers the profile record, the submitted
  resume content and the data handed to the layout. An object is the list of its own
  properties in insertion order; looking a key up takes its first binding.
  \<open>JUndefined\<close> is what reading an absent property gives. A number is a double: a finite
  one is the rational it equals, and a literal too large for a double is one of the two
  infinities. Zero has one representation: nothing the handler does tells \<open>-0\<close> from \<open>0\<close>.
\<close>

datatype number = Finite rat | PosInfinity | NegInfinity

datatype jsval =
    JUndefined
  | JNull
  | JBool bool
  | JNum number
  | JStr string
  | JArr "jsval list"
  | JObj "(string \<times> jsval) list"

text \<open>
  A thrown exception is a result on the left of a sum. Each error carries its
  \<open>message\<close>; for the errors the engine raises itself the wording is the engine's and
  only stands for it here.
\<close>

datatype js_error =
    Error (message: string)
  | SyntaxError (message: string)
  | TypeError (message: string)
  | RangeError (message: string)

definition then_do :: "js_error + 'a \<Rightarrow> ('a \<Rightarrow> js_error + 'b) \<Rightarrow> js_error + 'b" where
  "then_do r f = (case r of Inl e \<Rightarrow> Inl e | Inr x \<Rightarrow> f x)"

text \<open>ToBoolean: \<open>undefined\<close>, \<open>null\<close>, \<open>false\<close>, zero and the empty string are falsy.\<close>

fun truthy :: "jsval \<Rightarrow> bool" where
  "truthy JUndefined = False"
| "truthy JNull = False"
| "truthy (JBool b) = b"
| "truthy (JNum n) = (n \<noteq> Finite 0)"
| "truthy (JStr s) = (s \<noteq> [])"
| "truthy (JArr xs) = True"
| "truthy (JObj kvs) = True"

text \<open>\<open>a || b\<close> on values already computed (the caller keeps the short circuit).\<close>

definition js_or :: "jsval \<Rightarrow> jsval \<Rightarrow> jsval" where
  "js_or a b = (if truthy a then a else b)"

definition digit_char :: "nat \<Rightarrow> char" where
  "digit_char d = ''0123456789'' ! d"

function decimal :: "nat \<Rightarrow> string" where
  "decimal n = (if n < 10 then [digit_char n] else decimal (n div 10) @ [digit_char (n mod 10)])"
  by pat_completeness auto
termination
  by (relation "measure id") auto

declare decimal.simps [simp del]

text \<open>
  Reading a property, \<open>o.k\<close>: a \<open>TypeError\<close> on \<open>null\<close> and \<open>undefined\<close>, the own
  property of an object, the \<open>length\<close> of an array or a string, and \<open>undefined\<close> for every
  other key. Properties inherited from a prototype are not represented: the handler reads
  none from a parsed record (it reads \<open>title\<close>, \<open>summary\<close>, \<open>skills\<close>, \<open>experience\<close>,
  \<open>details\<close>, \<open>company\<close>, \<open>location\<close>, \<open>start_date\<close>, \<open>end_date\<close>, \<open>name\<close>, \<open>email\<close>,
  \<open>phone\<close>, \<open>linkedin\<close>, \<open>website\<close> and \<open>education\<close>).
\<close>

fun get :: "jsval \<Rightarrow> string \<Rightarrow> js_error + jsval" where
  "get JUndefined k = Inl (TypeError (''Cannot read properties of undefined (reading '' @ k @ '')''))"
| "get JNull k = Inl (TypeError (''Cannot read properties of null (reading '' @ k @ '')''))"
| "get (JObj kvs) k = Inr (case map_of kvs k of Some v \<Rightarrow> v | None \<Rightarrow> JUndefined)"
| "get (JArr xs) k = Inr (if k = ''length'' then JNum (Finite (of_nat (length xs))) else JUndefined)"
| "get (JStr s) k = Inr (if k = ''length'' then JNum (Finite (of_nat (length s))) else JUndefined)"
| "get (JBool b) k = Inr JUndefined"
| "get (JNum n) k = Inr JUndefined"

text \<open>Optional chaining, \<open>o?.k\<close>: \<open>undefined\<close> where \<open>o.k\<close> would throw.\<close>

definition get_opt :: "jsval \<Rightarrow> string \<Rightarrow> jsval" where
  "get_opt obj k = (case get obj k of Inl e \<Rightarrow> JUndefined | Inr v \<Rightarrow> v)"

text \<open>Indexing, \<open>o[i]\<close> with a non-negative integer \<open>i\<close>: past the end of an array it is \<open>undefined\<close>.\<close>

definition element :: "jsval list \<Rightarrow> nat \<Rightarrow> jsval" where
  "element xs i = (if i < length xs then xs ! i else JUndefined)"

fun index :: "jsval \<Rightarrow> nat \<Rightarrow> js_error + jsval" where
  "index (JArr xs) i = Inr (element xs i)"
| "index (JStr s) i = Inr (if i < length s then JStr [s ! i] else JUndefined)"
| "index obj i = get obj (decimal i)"

section \<open>Strings and regular-expression replacement\<close>

text \<open>
  A string is a list of 8-bit characters, one per code unit: the texts covered are those
  whose code units are below 256.
\<close>

text \<open>What \<open>\s\<close> and \<open>trim\<close> count as white space among these characters.\<close>

definition is_space :: "char \<Rightarrow> bool" where
  "is_space c = (c \<in> set [CHR 0x09, CHR 0x0A, CHR 0x0B, CHR 0x0C, CHR 0x0D, CHR 0x20, CHR 0xA0])"

definition trim :: "string \<Rightarrow> string" where
  "trim s = rev (dropWhile is_space (rev (dropWhile is_space s)))"

definition is_digit :: "char \<Rightarrow> bool" where
  "is_digit c = (let n = (of_char c :: nat) in 48 \<le> n \<and> n \<le> 57)"

definition is_upper :: "char \<Rightarrow> bool" where
  "is_upper c = (let n = (of_char c :: nat) in 65 \<le> n \<and> n \<le> 90)"

definition is_lower :: "char \<Rightarrow> bool" where
  "is_lower c = (let n = (of_char c :: nat) in 97 \<le> n \<and> n \<le> 122)"

definition to_lower :: "char \<Rightarrow> char" where
  "to_lower c = (if is_upper c then char_of ((of_char c :: nat) + 32) else c)"

text \<open>
  \<open>s.replace(re, r)\<close> for a regular expression with the \<open>g\<close> flag. The matcher \<open>m\<close>
  stands for the expression: at offset \<open>pos\<close>, with \<open>s\<close> the text from there on, it gives
  the length of the match that starts there, if one does. The scan goes left to right;
  a match is replaced by \<open>r\<close> of the matched text and the scan goes on behind it; after an
  empty match one character is copied.
\<close>

fun replace_all :: "(nat \<Rightarrow> string \<Rightarrow> nat option) \<Rightarrow> (string \<Rightarrow> string) \<Rightarrow> nat \<Rightarrow> string \<Rightarrow> string" where
  "replace_all m r pos [] = (case m pos [] of None \<Rightarrow> [] | Some n \<Rightarrow> r [])"
| "replace_all m r pos (c # cs) =
     (case m pos (c # cs) of
        None \<Rightarrow> c # replace_all m r (Suc pos) cs
      | Some 0 \<Rightarrow> r [] @ c # replace_all m r (Suc pos) cs
      | Some (Suc n) \<Rightarrow> r (take (Suc n) (c # cs)) @ replace_all m r (pos + Suc n) (drop n cs))"

subsection \<open>Locating the JSON object in the submitted text\<close>

text \<open>The three backticks of a code fence.\<close>

definition fence :: string where
  "fence = [CHR 0x60, CHR 0x60, CHR 0x60]"

text \<open>\<open>/```(?:json|javascript)?\s*/gi\<close>\<close>

definition match_fence_lang :: "nat \<Rightarrow> string \<Rightarrow> nat option" where
  "match_fence_lang pos s =
     (if take 3 s = fence then
        (let rest = drop 3 s;
             k = (if map to_lower (take 4 rest) = ''json'' then 4
                  else if map to_lower (take 10 rest) = ''javascript'' then 10
                  else 0)
         in Some (3 + k + length (takeWhile is_space (drop k rest))))
      else None)"

text \<open>\<open>/```\s*/g\<close>\<close>

definition match_fence :: "nat \<Rightarrow> string \<Rightarrow> nat option" where
  "match_fence pos s =
     (if take 3 s = fence then Some (3 + length (takeWhile is_space (drop 3 s))) else None)"

text \<open>\<open>indexOf\<close> and \<open>lastIndexOf\<close> of a character; \<open>None\<close> is the \<open>-1\<close> of no occurrence.\<close>

fun indexOf :: "string \<Rightarrow> char \<Rightarrow> nat option" where
  "indexOf [] x = None"
| "indexOf (c # cs) x = (if c = x then Some 0 else map_option Suc (indexOf cs x))"

definition lastIndexOf :: "string \<Rightarrow> char \<Rightarrow> nat option" where
  "lastIndexOf s x = map_option (\<lambda>i. length s - 1 - i) (indexOf (rev s) x)"

text \<open>\<open>s.substring(a, b)\<close> for \<open>a \<le> b \<le> length s\<close>.\<close>

definition substring :: "string \<Rightarrow> nat \<Rightarrow> nat \<Rightarrow> string" where
  "substring s a b = take (b - a) (drop a s)"

definition no_json_message :: string where
  "no_json_message =
     ''Invalid JSON format. Please provide valid JSON with title, summary, skills, and experience fields.''"

text \<open>Lines 101 to 118 of the handler: trim, drop the fences, cut from the first \<open>{\<close> to the last \<open>}\<close>.\<close>

definition extract_json :: "string \<Rightarrow> js_error + string" where
  "extract_json jd =
     (let content = trim (replace_all match_fence (\<lambda>w. []) 0
                      (replace_all match_fence_lang (\<lambda>w. []) 0 (trim jd)));
          firstBrace = indexOf content (CHR ''{'');
          lastBrace = lastIndexOf content (CHR ''}'')
      in case (firstBrace, lastBrace) of
           (Some f, Some l) \<Rightarrow>
             if l > f then Inr (substring content f (l + 1)) else Inl (Error no_json_message)
         | _ \<Rightarrow> Inl (Error no_json_message))"

subsection \<open>The repair of a text that does not parse\<close>

text \<open>\<open>\s*\<close> followed by one character of a class: what may follow the comma in both patterns.\<close>

definition ahead :: "(char \<Rightarrow> bool) \<Rightarrow> string \<Rightarrow> bool" where
  "ahead cls s = (case dropWhile is_space s of [] \<Rightarrow> False | d # ds \<Rightarrow> cls d)"

definition is_closer :: "char \<Rightarrow> bool" where
  "is_closer d = (d = CHR ''}'' \<or> d = CHR '']'')"

definition is_comma :: "char \<Rightarrow> bool" where
  "is_comma d = (d = CHR '','')"

text \<open>\<open>/,(\s*[}\]])/g\<close>, replaced by its group: the comma goes, the rest of the match stays.\<close>

definition match_trailing_comma :: "nat \<Rightarrow> string \<Rightarrow> nat option" where
  "match_trailing_comma pos s =
     (case s of
        [] \<Rightarrow> None
      | c # cs \<Rightarrow>
          if is_comma c \<and> ahead is_closer cs
          then Some (Suc (Suc (length (takeWhile is_space cs)))) else None)"

text \<open>\<open>/,\s*,/g\<close>, replaced by one comma.\<close>

definition match_double_comma :: "nat \<Rightarrow> string \<Rightarrow> nat option" where
  "match_double_comma pos s =
     (case s of
        [] \<Rightarrow> None
      | c # cs \<Rightarrow>
          if is_comma c \<and> ahead is_comma cs
          then Some (Suc (Suc (length (takeWhile is_space cs)))) else None)"

definition fix_content :: "string \<Rightarrow> string" where
  "fix_content content =
     replace_all match_double_comma (\<lambda>w. '','') 0 (replace_all match_trailing_comma tl 0 content)"

text \<open>
  To speak of a text that differs from another by surplus commas only: a marked text is
  the comma-free text with the places of the surplus commas marked. \<open>plain\<close> is the
  comma-free text, \<open>with_commas\<close> the text as submitted. A surplus comma is well placed
  when, in the submitted text, optional white space and a closing bracket or brace follow
  it (a trailing comma), or when a comma of the comma-free text follows it directly (a
  doubled comma). \<open>occurs m s\<close> says that the pattern \<open>m\<close> matches somewhere in \<open>s\<close>, and
  \<open>without_trailing\<close> is the marked text with its trailing commas taken out.
\<close>

datatype piece = Keep char | Surplus

fun plain :: "piece list \<Rightarrow> string" where
  "plain [] = []"
| "plain (Keep c # ps) = c # plain ps"
| "plain (Surplus # ps) = plain ps"

fun with_commas :: "piece list \<Rightarrow> string" where
  "with_commas [] = []"
| "with_commas (Keep c # ps) = c # with_commas ps"
| "with_commas (Surplus # ps) = CHR '','' # with_commas ps"

fun doubles :: "piece list \<Rightarrow> bool" where
  "doubles (Keep c # ps) = is_comma c"
| "doubles ps = False"

fun well_placed :: "piece list \<Rightarrow> bool" where
  "well_placed [] = True"
| "well_placed (Keep c # ps) = well_placed ps"
| "well_placed (Surplus # ps) = ((ahead is_closer (with_commas ps) \<or> doubles ps) \<and> well_placed ps)"

fun without_trailing :: "piece list \<Rightarrow> piece list" where
  "without_trailing [] = []"
| "without_trailing (Keep c # ps) = Keep c # without_trailing ps"
| "without_trailing (Surplus # ps) =
     (if ahead is_closer (with_commas ps) then without_trailing ps else Surplus # without_trailing ps)"

fun occurs :: "(nat \<Rightarrow> string \<Rightarrow> nat option) \<Rightarrow> string \<Rightarrow> bool" where
  "occurs m [] = (m 0 [] \<noteq> None)"
| "occurs m (c # cs) = (m 0 (c # cs) \<noteq> None \<or> occurs m cs)"

subsection \<open>The file name of the download\<close>

text \<open>
  \<open>/[^a-z0-9]/gi\<close>: the class as written holds the lower-case letters and the digits;
  under the \<open>i\<close> flag a character is compared after case folding.
\<close>

definition match_non_alnum :: "nat \<Rightarrow> string \<Rightarrow> nat option" where
  "match_non_alnum pos s =
     (case s of
        [] \<Rightarrow> None
      | c # cs \<Rightarrow> if is_lower (to_lower c) \<or> is_digit (to_lower c) then None else Some 1)"

text \<open>\<open>/_+/g\<close>\<close>

definition match_underscores :: "nat \<Rightarrow> string \<Rightarrow> nat option" where
  "match_underscores pos s =
     (case takeWhile (\<lambda>c. c = CHR ''_'') s of [] \<Rightarrow> None | u # us \<Rightarrow> Some (Suc (length us)))"

text \<open>\<open>/^_|_$/g\<close>: an underscore at offset 0, or one that is the last character.\<close>

definition match_edge_underscore :: "nat \<Rightarrow> string \<Rightarrow> nat option" where
  "match_edge_underscore pos s =
     (case s of
        [] \<Rightarrow> None
      | c # cs \<Rightarrow> if c = CHR ''_'' \<and> (pos = 0 \<or> cs = []) then Some 1 else None)"

definition sanitizeFilename :: "string \<Rightarrow> string" where
  "sanitizeFilename str =
     replace_all match_edge_underscore (\<lambda>w. []) 0
       (replace_all match_underscores (\<lambda>w. ''_'') 0
         (replace_all match_non_alnum (\<lambda>w. ''_'') 0 str))"

text \<open>The template literal of line 255, for a profile name that is a string.\<close>

definition filename :: "string \<Rightarrow> string \<Rightarrow> string \<Rightarrow> string" where
  "filename name company role =
     sanitizeFilename name @ ''_'' @ sanitizeFilename company @ ''_'' @ sanitizeFilename role @ ''.pdf''"

text \<open>
  The file name as section 4.5 of the specification words it, to compare the code with:
  every character outside \<open>[A-Za-z0-9]\<close> becomes an underscore, runs of underscores
  collapse to one, leading and trailing underscores are stripped, and the three parts are
  joined with underscores and the suffix \<open>.pdf\<close>.
\<close>

definition in_range :: "char \<Rightarrow> char \<Rightarrow> char \<Rightarrow> bool" where
  "in_range lo hi c = ((of_char lo :: nat) \<le> of_char c \<and> (of_char c :: nat) \<le> of_char hi)"

definition spec_alnum :: "char \<Rightarrow> bool" where
  "spec_alnum c =
     (in_range (CHR ''A'') (CHR ''Z'') c \<or> in_range (CHR ''a'') (CHR ''z'') c
      \<or> in_range (CHR ''0'') (CHR ''9'') c)"

fun spec_collapse :: "string \<Rightarrow> string" where
  "spec_collapse (a # b # cs) =
     (if a = CHR ''_'' \<and> b = CHR ''_'' then spec_collapse (b # cs) else a # spec_collapse (b # cs))"
| "spec_collapse cs = cs"

definition spec_strip :: "string \<Rightarrow> string" where
  "spec_strip s =
     rev (dropWhile (\<lambda>c. c = CHR ''_'') (rev (dropWhile (\<lambda>c. c = CHR ''_'') s)))"

definition spec_sanitize :: "string \<Rightarrow> string" where
  "spec_sanitize s =
     spec_strip (spec_collapse (map (\<lambda>c. if spec_alnum c then c else CHR ''_'') s))"

definition spec_filename :: "string \<Rightarrow> string \<Rightarrow> string \<Rightarrow> string" where
  "spec_filename name company role =
     spec_sanitize name @ ''_'' @ spec_sanitize company @ ''_'' @ spec_sanitize role @ ''.pdf''"

section \<open>\<open>JSON.parse\<close>\<close>

text \<open>
  The grammar of JSON texts: white space is space, tab, line feed and carriage return;
  a string is quoted, holds no control character and has the escapes
  \<open>\" \\ \/ \b \f \n \r \t \uXXXX\<close>; a number has no leading zero and digits after a
  point or an exponent mark. The text is cut into tokens, each with the offset it starts
  at, and the tokens drive a stack machine that builds the parsed result.

  Texts are strings of 8-bit characters. An escape \<open>\uXXXX\<close> above \<open>00FF\<close> denotes a
  character that is none of them; it is read as the substitute character \<open>0x1A\<close>, which
  like the character it stands for is no ASCII letter or digit. A string with such a
  character so keeps its length and its truthiness, the file name derived from it is the
  one the source derives, and as a key it differs from every key the handler reads.
\<close>

definition is_json_space :: "char \<Rightarrow> bool" where
  "is_json_space c = (c \<in> set [CHR 0x20, CHR 0x09, CHR 0x0A, CHR 0x0D])"

definition hex_digit :: "char \<Rightarrow> nat option" where
  "hex_digit c =
     (let n = (of_char c :: nat) in
      if 48 \<le> n \<and> n \<le> 57 then Some (n - 48)
      else if 97 \<le> n \<and> n \<le> 102 then Some (n - 87)
      else if 65 \<le> n \<and> n \<le> 70 then Some (n - 55)
      else None)"

definition code_unit :: "nat \<Rightarrow> char" where
  "code_unit n = (if n < 256 then char_of n else CHR 0x1A)"

definition hex4 :: "string \<Rightarrow> char option" where
  "hex4 s =
     (case map hex_digit s of
        [Some a, Some b, Some c, Some d] \<Rightarrow> Some (code_unit (((a * 16 + b) * 16 + c) * 16 + d))
      | _ \<Rightarrow> None)"

definition unescape :: "char \<Rightarrow> char option" where
  "unescape e =
     (if e = CHR 0x22 \<or> e = CHR 0x5C \<or> e = CHR ''/'' then Some e
      else if e = CHR ''b'' then Some (CHR 0x08)
      else if e = CHR ''f'' then Some (CHR 0x0C)
      else if e = CHR ''n'' then Some (CHR 0x0A)
      else if e = CHR ''r'' then Some (CHR 0x0D)
      else if e = CHR ''t'' then Some (CHR 0x09)
      else None)"

text \<open>
  The rest of a string literal, from behind its opening quote: the string it denotes and
  the number of characters up to and with the closing quote.
\<close>

fun scan_string :: "string \<Rightarrow> (string \<times> nat) option" where
  "scan_string [] = None"
| "scan_string (c # cs) =
     (if c = CHR 0x22 then Some ([], 1)
      else if c = CHR 0x5C then
        (case cs of
           [] \<Rightarrow> None
         | e # es \<Rightarrow>
             if e = CHR ''u'' then
               (case hex4 (take 4 es) of
                  None \<Rightarrow> None
                | Some u \<Rightarrow> map_option (\<lambda>(str, n). (u # str, n + 6)) (scan_string (drop 4 es)))
             else
               (case unescape e of
                  None \<Rightarrow> None
                | Some u \<Rightarrow> map_option (\<lambda>(str, n). (u # str, n + 2)) (scan_string es)))
      else if (of_char c :: nat) < 32 then None
      else map_option (\<lambda>(str, n). (c # str, Suc n)) (scan_string cs))"

definition digits_value :: "string \<Rightarrow> int" where
  "digits_value ds = foldl (\<lambda>a c. 10 * a + (of_char c - 48)) 0 ds"

definition pow10 :: "int \<Rightarrow> rat" where
  "pow10 e = (if 0 \<le> e then 10 ^ nat e else 1 / 10 ^ nat (- e))"

text \<open>
  The double nearest to a rational, ties to the even significand: a double has a
  significand of 53 bits above the exponent \<open>-1022\<close> and is a multiple of \<open>2^-1074\<close> below
  it, so a literal below half of that is zero; what rounds to \<open>2^1024\<close> or more is infinite.
\<close>

definition pow2 :: "int \<Rightarrow> rat" where
  "pow2 e = (if 0 \<le> e then 2 ^ nat e else 1 / 2 ^ nat (- e))"

function bit_length :: "int \<Rightarrow> nat" where
  "bit_length n = (if n \<le> 0 then 0 else Suc (bit_length (n div 2)))"
  by pat_completeness auto
termination
  by (relation "measure nat") auto

declare bit_length.simps [simp del]

text \<open>The exponent \<open>e\<close> of a positive rational \<open>a\<close>: \<open>2^e \<le> a < 2^(e+1)\<close>.\<close>

definition binary_exponent :: "rat \<Rightarrow> int" where
  "binary_exponent a =
     (let (p, q) = quotient_of a;
          e = int (bit_length p) - int (bit_length q)
      in if pow2 e \<le> a then e else e - 1)"

definition round_half_even :: "rat \<Rightarrow> int" where
  "round_half_even y =
     (let n = \<lfloor>y\<rfloor>;
          d = y - of_int n
      in if d < 1 / 2 then n else if 1 / 2 < d then n + 1 else if even n then n else n + 1)"

definition to_double :: "rat \<Rightarrow> number" where
  "to_double x =
     (if x = 0 then Finite 0
      else
        (let a = \<bar>x\<bar>;
             e = max (binary_exponent a) (- 1022);
             ulp = pow2 (e - 52);
             r = of_int (round_half_even (a / ulp)) * ulp
         in if pow2 1024 \<le> r then (if x < 0 then NegInfinity else PosInfinity)
            else Finite (if x < 0 then - r else r)))"

text \<open>A number literal at the head of the text: what it denotes and how long it is.\<close>

definition scan_number :: "string \<Rightarrow> (number \<times> nat) option" where
  "scan_number s =
     (let neg = (take 1 s = ''-'');
          s1 = (if neg then drop 1 s else s);
          ds = takeWhile is_digit s1;
          ip = (if take 1 ds = ''0'' then ''0'' else ds);
          s2 = drop (length ip) s1;
          has_frac = (take 1 s2 = ''.'');
          fs = (if has_frac then takeWhile is_digit (drop 1 s2) else []);
          s3 = (if has_frac then drop (Suc (length fs)) s2 else s2);
          has_exp = (take 1 s3 = ''e'' \<or> take 1 s3 = ''E'');
          s4 = drop 1 s3;
          exp_neg = (take 1 s4 = ''-'');
          s5 = (if exp_neg \<or> take 1 s4 = ''+'' then drop 1 s4 else s4);
          es = takeWhile is_digit s5;
          mantissa = (of_int (digits_value ip) + of_int (digits_value fs) / 10 ^ length fs :: rat);
          exponent = (if has_exp then (if exp_neg then - digits_value es else digits_value es) else 0);
          consumed = (if neg then 1 else 0) + length ip
                     + (if has_frac then Suc (length fs) else 0)
                     + (if has_exp then Suc (length s4 - length s5) + length es else 0)
      in if ip = [] \<or> (has_frac \<and> fs = []) \<or> (has_exp \<and> es = []) then None
         else Some (to_double ((if neg then - mantissa else mantissa) * pow10 exponent), consumed))"

datatype token =
    LBrace | RBrace | LBracket | RBracket | Comma | Colon
  | StringTok string | NumberTok number | TrueTok | FalseTok | NullTok
  | Invalid

fun tokenize :: "nat \<Rightarrow> string \<Rightarrow> (nat \<times> token) list" where
  "tokenize pos [] = []"
| "tokenize pos (c # cs) =
     (if is_json_space c then tokenize (Suc pos) cs
      else if c = CHR ''{'' then (pos, LBrace) # tokenize (Suc pos) cs
      else if c = CHR ''}'' then (pos, RBrace) # tokenize (Suc pos) cs
      else if c = CHR ''['' then (pos, LBracket) # tokenize (Suc pos) cs
      else if c = CHR '']'' then (pos, RBracket) # tokenize (Suc pos) cs
      else if c = CHR '','' then (pos, Comma) # tokenize (Suc pos) cs
      else if c = CHR '':'' then (pos, Colon) # tokenize (Suc pos) cs
      else if c = CHR 0x22 then
        (case scan_string cs of
           None \<Rightarrow> [(pos, Invalid)]
         | Some (str, n) \<Rightarrow> (pos, StringTok str) # tokenize (pos + Suc n) (drop n cs))
      else if c = CHR ''-'' \<or> is_digit c then
        (case scan_number (c # cs) of
           None \<Rightarrow> [(pos, Invalid)]
         | Some (v, n) \<Rightarrow> (pos, NumberTok v) # tokenize (pos + n) (drop (n - 1) cs))
      else if take 4 (c # cs) = ''true'' then (pos, TrueTok) # tokenize (pos + 4) (drop 3 cs)
      else if take 5 (c # cs) = ''false'' then (pos, FalseTok) # tokenize (pos + 5) (drop 4 cs)
      else if take 4 (c # cs) = ''null'' then (pos, NullTok) # tokenize (pos + 4) (drop 3 cs)
      else [(pos, Invalid)])"

text \<open>
  The containers that are open around the place being parsed: an array with the elements
  read so far, or an object with its members so far and the key whose value is due.
\<close>

datatype frame = InArr "jsval list" | InObj "(string \<times> jsval) list" string

datatype pstate =
    ExpectValue "frame list"
  | ArrOpen "frame list"
  | ArrNext "jsval list" "frame list"
  | ObjOpen "frame list"
  | ObjKey "(string \<times> jsval) list" "frame list"
  | ObjColon "(string \<times> jsval) list" string "frame list"
  | ObjNext "(string \<times> jsval) list" "frame list"
  | Done jsval
  | Failed nat

text \<open>A member whose key the object already has replaces that member's contents.\<close>

fun complete :: "jsval \<Rightarrow> frame list \<Rightarrow> pstate" where
  "complete v [] = Done v"
| "complete v (InArr xs # st) = ArrNext (xs @ [v]) st"
| "complete v (InObj kvs k # st) = ObjNext (AList.update k v kvs) st"

fun begin_value :: "frame list \<Rightarrow> nat \<Rightarrow> token \<Rightarrow> pstate" where
  "begin_value st pos LBrace = ObjOpen st"
| "begin_value st pos LBracket = ArrOpen st"
| "begin_value st pos (StringTok s) = complete (JStr s) st"
| "begin_value st pos (NumberTok n) = complete (JNum n) st"
| "begin_value st pos TrueTok = complete (JBool True) st"
| "begin_value st pos FalseTok = complete (JBool False) st"
| "begin_value st pos NullTok = complete JNull st"
| "begin_value st pos t = Failed pos"

fun step :: "pstate \<Rightarrow> nat \<times> token \<Rightarrow> pstate" where
  "step (ExpectValue st) (pos, t) = begin_value st pos t"
| "step (ArrOpen st) (pos, t) =
     (if t = RBracket then complete (JArr []) st else begin_value (InArr [] # st) pos t)"
| "step (ArrNext xs st) (pos, t) =
     (if t = Comma then ExpectValue (InArr xs # st)
      else if t = RBracket then complete (JArr xs) st
      else Failed pos)"
| "step (ObjOpen st) (pos, t) =
     (case t of RBrace \<Rightarrow> complete (JObj []) st | StringTok k \<Rightarrow> ObjColon [] k st | _ \<Rightarrow> Failed pos)"
| "step (ObjKey kvs st) (pos, t) =
     (case t of StringTok k \<Rightarrow> ObjColon kvs k st | _ \<Rightarrow> Failed pos)"
| "step (ObjColon kvs k st) (pos, t) =
     (if t = Colon then ExpectValue (InObj kvs k # st) else Failed pos)"
| "step (ObjNext kvs st) (pos, t) =
     (if t = Comma then ObjKey kvs st
      else if t = RBrace then complete (JObj kvs) st
      else Failed pos)"
| "step (Done v) (pos, t) = Failed pos"
| "step (Failed p) (pos, t) = Failed p"

definition unexpected_token :: "nat \<Rightarrow> js_error" where
  "unexpected_token pos = SyntaxError (''Unexpected token in JSON at position '' @ decimal pos)"

definition JSON_parse :: "string \<Rightarrow> js_error + jsval" where
  "JSON_parse text =
     (case foldl step (ExpectValue []) (tokenize 0 text) of
        Done v \<Rightarrow> Inr v
      | Failed pos \<Rightarrow> Inl (unexpected_token pos)
      | _ \<Rightarrow> Inl (SyntaxError ''Unexpected end of JSON input''))"

section \<open>The content normalizer\<close>

text \<open>
  Lines 122 to 141: the strict parse; when it throws, one parse of the repaired text; when
  that throws too, an error made from the message of the first.
\<close>

definition parse_resume :: "string \<Rightarrow> js_error + jsval" where
  "parse_resume content =
     (case JSON_parse content of
        Inr resumeContent \<Rightarrow> Inr resumeContent
      | Inl parseError \<Rightarrow>
          (case JSON_parse (fix_content content) of
             Inr resumeContent \<Rightarrow> Inr resumeContent
           | Inl secondError \<Rightarrow>
               Inl (Error (''Invalid JSON format: '' @ message parseError
                           @ ''. Please check your JSON syntax.''))))"

definition missing_fields_message :: string where
  "missing_fields_message = ''JSON missing required fields (title, summary, skills, or experience)''"

text \<open>Lines 144 to 147: \<open>!title || !summary || !skills || !experience\<close>, left to right.\<close>

definition validate_required :: "jsval \<Rightarrow> js_error + unit" where
  "validate_required resumeContent =
     then_do (get resumeContent ''title'') (\<lambda>title.
       if \<not> truthy title then Inl (Error missing_fields_message)
       else then_do (get resumeContent ''summary'') (\<lambda>summary.
         if \<not> truthy summary then Inl (Error missing_fields_message)
         else then_do (get resumeContent ''skills'') (\<lambda>skills.
           if \<not> truthy skills then Inl (Error missing_fields_message)
           else then_do (get resumeContent ''experience'') (\<lambda>experience.
             if \<not> truthy experience then Inl (Error missing_fields_message)
             else Inr ()))))"

definition normalize :: "string \<Rightarrow> js_error + jsval" where
  "normalize jd =
     then_do (extract_json jd) (\<lambda>content.
     then_do (parse_resume content) (\<lambda>resumeContent.
     then_do (validate_required resumeContent) (\<lambda>u. Inr resumeContent)))"

text \<open>
  Lines 150 to 159 only log, but the logging can throw: \<open>experience.forEach\<close> is a function
  on arrays alone, and the callback reads the \<open>title\<close> of every entry.
\<close>

fun forEach_title :: "jsval list \<Rightarrow> js_error + unit" where
  "forEach_title [] = Inr ()"
| "forEach_title (entry # rest) = then_do (get entry ''title'') (\<lambda>t. forEach_title rest)"

definition log_experience :: "jsval \<Rightarrow> js_error + unit" where
  "log_experience resumeContent =
     then_do (get resumeContent ''experience'') (\<lambda>experience.
       case experience of
         JArr entries \<Rightarrow> forEach_title entries
       | _ \<Rightarrow> Inl (TypeError ''resumeContent.experience.forEach is not a function''))"

section \<open>The merged document\<close>

text \<open>The callback of \<open>profileData.experience.map\<close>, lines 176 to 183.\<close>

definition merge_job :: "jsval \<Rightarrow> jsval \<Rightarrow> nat \<Rightarrow> js_error + jsval" where
  "merge_job resumeContent job idx =
     then_do (get job ''title'') (\<lambda>job_title.
     then_do (if truthy job_title then Inr job_title
              else then_do (get resumeContent ''experience'') (\<lambda>experience.
                   then_do (index experience idx) (\<lambda>entry.
                   Inr (js_or (get_opt entry ''title'') (JStr ''Engineer''))))) (\<lambda>title.
     then_do (get job ''company'') (\<lambda>company.
     then_do (get job ''location'') (\<lambda>location.
     then_do (get job ''start_date'') (\<lambda>start_date.
     then_do (get job ''end_date'') (\<lambda>end_date.
     then_do (get resumeContent ''experience'') (\<lambda>experience.
     then_do (index experience idx) (\<lambda>entry.
     Inr (JObj [(''title'', title),
                (''company'', company),
                (''location'', location),
                (''start_date'', start_date),
                (''end_date'', end_date),
                (''details'', js_or (get_opt entry ''details'') (JArr []))])))))))))"

fun map_from :: "(jsval \<Rightarrow> nat \<Rightarrow> js_error + jsval) \<Rightarrow> nat \<Rightarrow> jsval list \<Rightarrow> js_error + jsval list" where
  "map_from f idx [] = Inr []"
| "map_from f idx (x # xs) =
     then_do (f x idx) (\<lambda>y. then_do (map_from f (Suc idx) xs) (\<lambda>ys. Inr (y # ys)))"

text \<open>\<open>a.map(f)\<close>: only an array has the function \<open>map\<close>.\<close>

definition array_map :: "jsval \<Rightarrow> (jsval \<Rightarrow> nat \<Rightarrow> js_error + jsval) \<Rightarrow> js_error + jsval" where
  "array_map a f =
     (case a of
        JArr xs \<Rightarrow> then_do (map_from f 0 xs) (\<lambda>ys. Inr (JArr ys))
      | JUndefined \<Rightarrow> Inl (TypeError ''Cannot read properties of undefined (reading map)'')
      | JNull \<Rightarrow> Inl (TypeError ''Cannot read properties of null (reading map)'')
      | _ \<Rightarrow> Inl (TypeError ''profileData.experience.map is not a function''))"

definition merge_experience :: "jsval \<Rightarrow> jsval \<Rightarrow> js_error + jsval" where
  "merge_experience profileData resumeContent =
     then_do (get profileData ''experience'') (\<lambda>jobs. array_map jobs (merge_job resumeContent))"

text \<open>The object literal \<open>templateData\<close>, lines 166 to 185.\<close>

definition build_templateData :: "jsval \<Rightarrow> jsval \<Rightarrow> js_error + jsval" where
  "build_templateData profileData resumeContent =
     then_do (get profileData ''name'') (\<lambda>name.
     then_do (get resumeContent ''title'') (\<lambda>title.
     then_do (get profileData ''email'') (\<lambda>email.
     then_do (get profileData ''phone'') (\<lambda>phone.
     then_do (get profileData ''location'') (\<lambda>location.
     then_do (get profileData ''linkedin'') (\<lambda>linkedin.
     then_do (get profileData ''website'') (\<lambda>website.
     then_do (get resumeContent ''summary'') (\<lambda>summary.
     then_do (get resumeContent ''skills'') (\<lambda>skills.
     then_do (merge_experience profileData resumeContent) (\<lambda>experience.
     then_do (get profileData ''education'') (\<lambda>education.
     Inr (JObj [(''name'', name),
                (''title'', title),
                (''email'', email),
                (''phone'', phone),
                (''location'', location),
                (''linkedin'', linkedin),
                (''website'', website),
                (''summary'', summary),
                (''skills'', skills),
                (''experience'', experience),
                (''education'', education)]))))))))))))"

section \<open>The profile store and the template registry\<close>

text \<open>
  \<open>path.join\<close> on a POSIX host: the arguments that are not empty are put together with
  \<open>/\<close> between them and the result is normalized. Normalizing cuts the path at every
  \<open>/\<close>, drops the empty segments and the segments \<open>.\<close>, and lets a segment \<open>..\<close> take back
  the segment before it; above the root of an absolute path there is nothing to take
  back, and a relative path keeps the \<open>..\<close> it cannot resolve. So a \<open>/\<close>, a \<open>.\<close> or a
  \<open>..\<close> inside an argument is resolved like one between the arguments.
\<close>

fun split_path :: "string \<Rightarrow> string list" where
  "split_path [] = [[]]"
| "split_path (c # cs) =
     (if c = CHR ''/'' then [] # split_path cs
      else (case split_path cs of [] \<Rightarrow> [[c]] | seg # segs \<Rightarrow> (c # seg) # segs))"

fun resolve_segments :: "bool \<Rightarrow> string list \<Rightarrow> string list \<Rightarrow> string list" where
  "resolve_segments allowAboveRoot res [] = res"
| "resolve_segments allowAboveRoot res (seg # segs) =
     (if seg = [] \<or> seg = ''.'' then resolve_segments allowAboveRoot res segs
      else if seg = ''..'' then
        (if res \<noteq> [] \<and> last res \<noteq> ''..'' then resolve_segments allowAboveRoot (butlast res) segs
         else if allowAboveRoot then resolve_segments allowAboveRoot (res @ [''..'']) segs
         else resolve_segments allowAboveRoot res segs)
      else resolve_segments allowAboveRoot (res @ [seg]) segs)"

fun join_with_slash :: "string list \<Rightarrow> string" where
  "join_with_slash [] = []"
| "join_with_slash [seg] = seg"
| "join_with_slash (seg # segs) = seg @ ''/'' @ join_with_slash segs"

definition path_normalize :: "string \<Rightarrow> string" where
  "path_normalize p =
     (if p = [] then ''.''
      else
        (let isAbsolute = (hd p = CHR ''/'');
             trailingSeparator = (last p = CHR ''/'');
             resolved = join_with_slash (resolve_segments (\<not> isAbsolute) [] (split_path p))
         in if resolved = [] then (if isAbsolute then ''/'' else if trailingSeparator then ''./'' else ''.'')
            else (if isAbsolute then ''/'' else []) @ resolved @ (if trailingSeparator then ''/'' else [])))"

definition path_join :: "string list \<Rightarrow> string" where
  "path_join args =
     (let joined = join_with_slash (filter (\<lambda>arg. arg \<noteq> []) args)
      in if joined = [] then ''.'' else path_normalize joined)"

text \<open>
  The file system as the process sees it: its working directory, \<open>process.cwd()\<close>, and
  what there is at each normalized absolute path.
\<close>

datatype fs_entry = File string | Directory

record filesystem =
  cwd :: string
  entry_at :: "string \<Rightarrow> fs_entry option"

definition existsSync :: "filesystem \<Rightarrow> string \<Rightarrow> bool" where
  "existsSync fs p = (entry_at fs p \<noteq> None)"

definition readFileSync :: "filesystem \<Rightarrow> string \<Rightarrow> js_error + string" where
  "readFileSync fs p =
     (case entry_at fs p of
        Some (File text) \<Rightarrow> Inr text
      | Some Directory \<Rightarrow> Inl (Error ''EISDIR: illegal operation on a directory, read'')
      | None \<Rightarrow> Inl (Error ''ENOENT: no such file or directory''))"

type_synonym profile_cache = "string \<rightharpoonup> jsval"

text \<open>\<open>loadProfile\<close>, lines 63 to 76, with the cache it leaves behind.\<close>

definition loadProfile :: "filesystem \<Rightarrow> profile_cache \<Rightarrow> string \<Rightarrow> (js_error + jsval) \<times> profile_cache" where
  "loadProfile fs profileCache profileName =
     (case profileCache profileName of
        Some cached \<Rightarrow> (Inr cached, profileCache)
      | None \<Rightarrow>
          (let profilePath = path_join [cwd fs, ''resumes'', profileName @ ''.json''] in
           if \<not> existsSync fs profilePath then (Inr JNull, profileCache)
           else
             (case then_do (readFileSync fs profilePath) JSON_parse of
                Inl e \<Rightarrow> (Inl e, profileCache)
              | Inr profileData \<Rightarrow> (Inr profileData, profileCache(profileName \<mapsto> profileData)))))"

text \<open>
  The cache of a process that started with an empty one and has loaded the profiles
  \<open>names\<close> one after the other, the stored files staying as they are.
\<close>

definition cache_after :: "filesystem \<Rightarrow> string list \<Rightarrow> profile_cache" where
  "cache_after fs names = foldl (\<lambda>cache name. snd (loadProfile fs cache name)) Map.empty names"

text \<open>
  The store as the specification describes it: a record is kept under its identifier, as
  the file \<open>resumes/<identifier>.json\<close> of the working directory, and lookup is an exact
  match against the stored identifiers. An identifier is so the name of a file, and what
  holds a \<open>/\<close> is none.
\<close>

definition spec_stored :: "filesystem \<Rightarrow> string \<Rightarrow> bool" where
  "spec_stored fs profileId =
     (CHR ''/'' \<notin> set profileId
      \<and> entry_at fs (cwd fs @ ''/resumes/'' @ profileId @ ''.json'') \<noteq> None)"

text \<open>
  The absolute path with the given segments, and the segments that normalizing leaves as
  they are: \<open>process.cwd()\<close> is such a path.
\<close>

definition absolute_path :: "string list \<Rightarrow> string" where
  "absolute_path segs = concat (map (\<lambda>seg. CHR ''/'' # seg) segs)"

definition plain_segment :: "string \<Rightarrow> bool" where
  "plain_segment seg = (seg \<noteq> [] \<and> seg \<noteq> ''.'' \<and> seg \<noteq> ''..'' \<and> CHR ''/'' \<notin> set seg)"

definition TEMPLATE_OPTIONS :: "(string \<times> string) list" where
  "TEMPLATE_OPTIONS =
     [(''default'', ''Resume.html''),
      (''modern'', ''Resume_Modern.html''),
      (''classic'', ''Resume_Classic.html''),
      (''contemporary'', ''Resume_Contemporary.html''),
      (''compact'', ''Resume_Compact.html''),
      (''elegant'', ''Resume_Elegant.html'')]"

text \<open>
  \<open>TEMPLATE_OPTIONS\<close> is an object literal, so \<open>TEMPLATE_OPTIONS[templateName]\<close> also finds
  what every object inherits from \<open>Object.prototype\<close>: functions, and for \<open>__proto__\<close> the
  prototype itself.
\<close>

definition object_prototype_keys :: "string list" where
  "object_prototype_keys =
     [''constructor'', ''__proto__'', ''hasOwnProperty'', ''isPrototypeOf'',
      ''propertyIsEnumerable'', ''toLocaleString'', ''toString'', ''valueOf'',
      ''__defineGetter__'', ''__defineSetter__'', ''__lookupGetter__'', ''__lookupSetter__'']"

datatype template_option = TemplateFile string | InheritedProperty | NoProperty

definition template_option :: "string \<Rightarrow> template_option" where
  "template_option templateName =
     (case map_of TEMPLATE_OPTIONS templateName of
        Some templateFile \<Rightarrow> TemplateFile templateFile
      | None \<Rightarrow> if templateName \<in> set object_prototype_keys then InheritedProperty else NoProperty)"

fun option_truthy :: "template_option \<Rightarrow> bool" where
  "option_truthy (TemplateFile templateFile) = (templateFile \<noteq> [])"
| "option_truthy InheritedProperty = True"
| "option_truthy NoProperty = False"

text \<open>What \<open>Handlebars.compile\<close> makes of a template source.\<close>

datatype compiled = Compiled string

type_synonym template_cache = "string \<rightharpoonup> compiled"

text \<open>
  \<open>getTemplate\<close>, lines 31 to 58. It calls itself when a template file is missing, so its
  first argument is the depth of call stack that is left: with none left the engine
  throws a \<open>RangeError\<close>. \<open>path.join\<close> throws a \<open>TypeError\<close> on an argument that is not a
  string.
\<close>

fun getTemplate :: "nat \<Rightarrow> filesystem \<Rightarrow> template_cache \<Rightarrow> string \<Rightarrow> (js_error + compiled) \<times> template_cache" where
  "getTemplate 0 fs templateCache requested =
     (Inl (RangeError ''Maximum call stack size exceeded''), templateCache)"
| "getTemplate (Suc depth) fs templateCache requested =
     (let templateName = (if \<not> option_truthy (template_option requested) then ''default'' else requested) in
      case templateCache templateName of
        Some cached \<Rightarrow> (Inr cached, templateCache)
      | None \<Rightarrow>
          (case template_option templateName of
             TemplateFile templateFile \<Rightarrow>
               (let templatePath = path_join [cwd fs, ''templates'', templateFile] in
                if \<not> existsSync fs templatePath then getTemplate depth fs templateCache ''default''
                else
                  (case readFileSync fs templatePath of
                     Inl e \<Rightarrow> (Inl e, templateCache)
                   | Inr templateSource \<Rightarrow>
                       (Inr (Compiled templateSource),
                        templateCache(templateName \<mapsto> Compiled templateSource))))
           | _ \<Rightarrow> (Inl (TypeError ''The path argument must be of type string''), templateCache)))"

section \<open>The render pipeline and the request handler\<close>

text \<open>
  What lies outside the handler is a parameter of the model: the files, the depth of call
  stack, what applying a compiled template to the merged document gives, whether the
  process runs serverless, and what each call on the browser engine does (it returns, or
  it throws).
\<close>

record environment =
  files :: filesystem
  stack_depth :: nat
  layout :: "compiled \<Rightarrow> jsval \<Rightarrow> js_error + string"
  isServerless :: bool
  executablePath :: "js_error + string"
  puppeteerCore_launch :: "js_error + unit"
  puppeteer_launch :: "js_error + unit"
  newPage :: "js_error + unit"
  setContent :: "string \<Rightarrow> js_error + unit"
  pdf :: "string \<Rightarrow> js_error + string"
  close :: "js_error + unit"

text \<open>
  The browser session of one request: not launched, launched and open, or closed. A
  \<open>close\<close> that throws has not closed it.
\<close>

datatype session = NotAcquired | Open | Closed

definition launch :: "environment \<Rightarrow> js_error + unit" where
  "launch env =
     (if isServerless env then then_do (executablePath env) (\<lambda>p. puppeteerCore_launch env)
      else puppeteer_launch env)"

text \<open>Lines 197 to 248, with the state the session is left in.\<close>

definition rasterize :: "environment \<Rightarrow> string \<Rightarrow> (js_error + string) \<times> session" where
  "rasterize env html =
     (case launch env of
        Inl e \<Rightarrow> (Inl e, NotAcquired)
      | Inr browser \<Rightarrow>
          (case newPage env of
             Inl e \<Rightarrow> (Inl e, Open)
           | Inr page \<Rightarrow>
               (case setContent env html of
                  Inl e \<Rightarrow> (Inl e, Open)
                | Inr loaded \<Rightarrow>
                    (case pdf env html of
                       Inl e \<Rightarrow> (Inl e, Open)
                     | Inr pdfBuffer \<Rightarrow>
                         (case close env of
                            Inl e \<Rightarrow> (Inl e, Open)
                          | Inr released \<Rightarrow> (Inr pdfBuffer, Closed))))))"

text \<open>
  Line 255 for a profile record as parsed: \<open>str.replace\<close> exists on a string only.
  \<open>company\<close> and \<open>role\<close> are strings of the request.
\<close>

definition derive_filename :: "jsval \<Rightarrow> string \<Rightarrow> string \<Rightarrow> js_error + string" where
  "derive_filename profileData company role =
     then_do (get profileData ''name'') (\<lambda>name.
       case name of
         JStr str \<Rightarrow> Inr (filename str company role)
       | JUndefined \<Rightarrow> Inl (TypeError ''Cannot read properties of undefined (reading replace)'')
       | JNull \<Rightarrow> Inl (TypeError ''Cannot read properties of null (reading replace)'')
       | _ \<Rightarrow> Inl (TypeError ''str.replace is not a function''))"

text \<open>
  The request as section 6 of the specification gives it: a method, and a body whose
  fields are strings or absent.
\<close>

record request =
  req_method :: string
  req_profile :: "string option"
  req_jd :: "string option"
  req_company :: "string option"
  req_role :: "string option"
  req_template :: "string option"

record response =
  status :: nat
  headers :: "(string \<times> string) list"
  body :: string

definition send :: "nat \<Rightarrow> string \<Rightarrow> response" where
  "send code text = \<lparr>status = code, headers = [], body = text\<rparr>"

text \<open>\<open>!x\<close> for a field of the body: absent, or the empty string.\<close>

definition absent :: "string option \<Rightarrow> bool" where
  "absent field = (case field of None \<Rightarrow> True | Some str \<Rightarrow> str = [])"

text \<open>
  The \<open>try\<close> block from line 90 on, for a body with all four required fields: the response
  or the exception, the two caches and the browser session as the block leaves them.
\<close>

definition generate ::
  "environment \<Rightarrow> profile_cache \<Rightarrow> template_cache \<Rightarrow> string \<Rightarrow> string \<Rightarrow> string \<Rightarrow> string \<Rightarrow> string
     \<Rightarrow> (js_error + response) \<times> profile_cache \<times> template_cache \<times> session" where
  \<open>generate env profileCache templateCache profile jd company role template =
     (case loadProfile (files env) profileCache profile of
        (Inl e, profileCache1) \<Rightarrow> (Inl e, profileCache1, templateCache, NotAcquired)
      | (Inr profileData, profileCache1) \<Rightarrow>
          if \<not> truthy profileData then
            (Inr (send 404 (''Profile "'' @ profile @ ''" not found'')),
             profileCache1, templateCache, NotAcquired)
          else
            (case then_do (normalize jd) (\<lambda>resumeContent.
                    then_do (log_experience resumeContent) (\<lambda>u. Inr resumeContent)) of
               Inl e \<Rightarrow> (Inl e, profileCache1, templateCache, NotAcquired)
             | Inr resumeContent \<Rightarrow>
                 (case getTemplate (stack_depth env) (files env) templateCache template of
                    (Inl e, templateCache1) \<Rightarrow> (Inl e, profileCache1, templateCache1, NotAcquired)
                  | (Inr compiledTemplate, templateCache1) \<Rightarrow>
                      (case then_do (build_templateData profileData resumeContent)
                              (layout env compiledTemplate) of
                         Inl e \<Rightarrow> (Inl e, profileCache1, templateCache1, NotAcquired)
                       | Inr html \<Rightarrow>
                           (case rasterize env html of
                              (Inl e, browser) \<Rightarrow> (Inl e, profileCache1, templateCache1, browser)
                            | (Inr pdfBuffer, browser) \<Rightarrow>
                                (case derive_filename profileData company role of
                                   Inl e \<Rightarrow> (Inl e, profileCache1, templateCache1, browser)
                                 | Inr name \<Rightarrow>
                                     (Inr \<lparr>status = 200,
                                           headers =
                                             [(''Content-Type'', ''application/pdf''),
                                              (''Content-Disposition'',
                                               ''attachment; filename="'' @ name @ ''"'')],
                                           body = pdfBuffer\<rparr>,
                                      profileCache1, templateCache1, browser)))))))\<close>

text \<open>
  The handler, lines 79 to 265: the checks of the request, the \<open>try\<close> block, and the
  \<open>catch\<close> that turns every exception into a 500 response.
\<close>

definition handler ::
  "environment \<Rightarrow> profile_cache \<Rightarrow> template_cache \<Rightarrow> request
     \<Rightarrow> response \<times> profile_cache \<times> template_cache \<times> session" where
  "handler env profileCache templateCache req =
     (if req_method req \<noteq> ''POST'' then
        (send 405 ''Method not allowed'', profileCache, templateCache, NotAcquired)
      else if absent (req_profile req) then
        (send 400 ''Profile required'', profileCache, templateCache, NotAcquired)
      else if absent (req_jd req) then
        (send 400 ''Completed resume JSON required'', profileCache, templateCache, NotAcquired)
      else if absent (req_company req) then
        (send 400 ''Company name required'', profileCache, templateCache, NotAcquired)
      else if absent (req_role req) then
        (send 400 ''Role name required'', profileCache, templateCache, NotAcquired)
      else
        (case generate env profileCache templateCache
                (the (req_profile req)) (the (req_jd req)) (the (req_company req))
                (the (req_role req))
                (case req_template req of None \<Rightarrow> ''default'' | Some t \<Rightarrow> t) of
           (Inr sent, caches) \<Rightarrow> (sent, caches)
         | (Inl err, caches) \<Rightarrow>
             (send 500 (''PDF generation failed: '' @ message err), caches)))"

section \<open>A sample deployment\<close>

text \<open>
  A working directory with one stored profile, the default template and the package
  manifest of the application, a browser engine whose calls all return, and a well-formed
  request: the concrete input of the worked examples below.
\<close>

definition sample_files :: filesystem where
  \<open>sample_files =
     \<lparr>cwd = ''/app'',
      entry_at = (\<lambda>p.
        if p = ''/app/resumes/jane.json''
        then Some (File ''{"name":"Jane Doe","experience":[{"title":"Developer","company":"Acme"}]}'')
        else if p = ''/app/templates/Resume.html'' then Some (File ''<h1>{{name}}</h1>'')
        else if p = ''/app/package.json'' then Some (File ''{"name":"resume-app","private":true}'')
        else None)\<rparr>\<close>

definition sample_environment :: environment where
  "sample_environment =
     \<lparr>files = sample_files,
      stack_depth = 1000,
      layout = (\<lambda>compiledTemplate templateData. Inr ''<h1>Jane Doe</h1>''),
      isServerless = False,
      executablePath = Inr ''/usr/bin/chromium'',
      puppeteerCore_launch = Inr (),
      puppeteer_launch = Inr (),
      newPage = Inr (),
      setContent = (\<lambda>html. Inr ()),
      pdf = (\<lambda>html. Inr ''%PDF-1.4''),
      close = Inr ()\<rparr>"

definition sample_request :: request where
  \<open>sample_request =
     \<lparr>req_method = ''POST'',
      req_profile = Some ''jane'',
      req_jd = Some ''{"title":"Engineer","summary":"Builds things","skills":{"Languages":["JS"]},"experience":[{"details":["Shipped it"]}]}'',
      req_company = Some ''Acme, Inc.'',
      req_role = Some ''Sr. Eng!'',
      req_template = None\<rparr>\<close>

section \<open>Properties of the merged experience list\<close>

lemma get_defined: "job \<noteq> JNull \<Longrightarrow> job \<noteq> JUndefined \<Longrightarrow> get job k = Inr (get_opt job k)"
  by (cases job) (simp_all add: get_opt_def)

lemma merge_job_defined:
  assumes "job \<noteq> JNull" "job \<noteq> JUndefined"
    and "get resumeContent ''experience'' = Inr (JArr entries)"
  shows "merge_job resumeContent job idx =
     Inr (JObj [(''title'', js_or (get_opt job ''title'')
                              (js_or (get_opt (element entries idx) ''title'') (JStr ''Engineer''))),
                (''company'', get_opt job ''company''),
                (''location'', get_opt job ''location''),
                (''start_date'', get_opt job ''start_date''),
                (''end_date'', get_opt job ''end_date''),
                (''details'', js_or (get_opt (element entries idx) ''details'') (JArr []))])"
  using assms
  by (simp add: merge_job_def then_do_def get_defined js_or_def)

lemma map_from_merge_job:
  assumes "JNull \<notin> set jobs" "JUndefined \<notin> set jobs"
    and rc: "get resumeContent ''experience'' = Inr (JArr entries)"
  shows "\<exists>merged. map_from (merge_job resumeContent) k jobs = Inr merged
           \<and> length merged = length jobs
           \<and> (\<forall>i < length jobs. Inr (merged ! i) = merge_job resumeContent (jobs ! i) (k + i))"
  using assms(1,2)
proof (induction jobs arbitrary: k)
  case Nil
  then show ?case by simp
next
  case (Cons job jobs)
  then obtain merged where m: "map_from (merge_job resumeContent) (Suc k) jobs = Inr merged"
      "length merged = length jobs"
      "\<forall>i < length jobs. Inr (merged ! i) = merge_job resumeContent (jobs ! i) (Suc k + i)"
    by force
  from Cons.prems have "job \<noteq> JNull" "job \<noteq> JUndefined" by auto
  from merge_job_defined[OF this rc]
  obtain y where y: "merge_job resumeContent job k = Inr y" by blast
  have "\<forall>i < length (job # jobs).
          Inr ((y # merged) ! i) = merge_job resumeContent ((job # jobs) ! i) (k + i)"
  proof (intro allI impI)
    fix i assume "i < length (job # jobs)"
    then show "Inr ((y # merged) ! i) = merge_job resumeContent ((job # jobs) ! i) (k + i)"
      using m(3) y by (cases i) simp_all
  qed
  then show ?case using m(1,2) y by (simp add: then_do_def)
qed

lemma merge_experience_defined:
  assumes rc: "get resumeContent ''experience'' = Inr (JArr entries)"
    and pd: "get profileData ''experience'' = Inr (JArr jobs)"
    and nn: "JNull \<notin> set jobs" and nu: "JUndefined \<notin> set jobs"
  shows "\<exists>merged. merge_experience profileData resumeContent = Inr (JArr merged)
           \<and> length merged = length jobs
           \<and> (\<forall>i < length jobs. merged ! i =
                 JObj [(''title'', js_or (get_opt (jobs ! i) ''title'')
                              (js_or (get_opt (element entries i) ''title'') (JStr ''Engineer''))),
                       (''company'', get_opt (jobs ! i) ''company''),
                       (''location'', get_opt (jobs ! i) ''location''),
                       (''start_date'', get_opt (jobs ! i) ''start_date''),
                       (''end_date'', get_opt (jobs ! i) ''end_date''),
                       (''details'', js_or (get_opt (element entries i) ''details'') (JArr []))])"
proof -
  from map_from_merge_job[OF nn nu rc, of 0]
  obtain merged where m: "map_from (merge_job resumeContent) 0 jobs = Inr merged"
      "length merged = length jobs"
      "\<forall>i < length jobs. Inr (merged ! i) = merge_job resumeContent (jobs ! i) (0 + i)"
    by blast
  have "merged ! i =
                 JObj [(''title'', js_or (get_opt (jobs ! i) ''title'')
                              (js_or (get_opt (element entries i) ''title'') (JStr ''Engineer''))),
                       (''company'', get_opt (jobs ! i) ''company''),
                       (''location'', get_opt (jobs ! i) ''location''),
                       (''start_date'', get_opt (jobs ! i) ''start_date''),
                       (''end_date'', get_opt (jobs ! i) ''end_date''),
                       (''details'', js_or (get_opt (element entries i) ''details'') (JArr []))]"
    if "i < length jobs" for i
  proof -
    from that nn nu have "jobs ! i \<noteq> JNull" "jobs ! i \<noteq> JUndefined"
      by (metis nth_mem)+
    note d = merge_job_defined[OF this rc, of i]
    from m(3) that have "Inr (merged ! i) = merge_job resumeContent (jobs ! i) i" by simp
    with d show ?thesis by simp
  qed
  with m(1,2) show ?thesis
    by (simp add: merge_experience_def array_map_def then_do_def pd)
qed

text \<open>
  Claim C1, as the code has it. In the merged experience list, entry \<open>i\<close> takes company,
  location, start date and end date from profile job \<open>i\<close> and its detail bullets from
  submitted entry \<open>i\<close> (the empty list when that entry has none). Its title is the title of
  profile job \<open>i\<close> when that is truthy; only otherwise the title of submitted entry \<open>i\<close>,
  and \<open>Engineer\<close> when that is falsy too. The profile's jobs are taken not to be \<open>null\<close>:
  on a \<open>null\<close> job the merge throws.
\<close>

theorem merged_entry_fields:
  assumes rc: "get resumeContent ''experience'' = Inr (JArr entries)"
    and pd: "get profileData ''experience'' = Inr (JArr jobs)"
    and nn: "JNull \<notin> set jobs" and nu: "JUndefined \<notin> set jobs"
    and i: "i < length jobs"
  shows "\<exists>merged. merge_experience profileData resumeContent = Inr (JArr merged)
           \<and> length merged = length jobs
           \<and> get (merged ! i) ''company'' = get (jobs ! i) ''company''
           \<and> get (merged ! i) ''location'' = get (jobs ! i) ''location''
           \<and> get (merged ! i) ''start_date'' = get (jobs ! i) ''start_date''
           \<and> get (merged ! i) ''end_date'' = get (jobs ! i) ''end_date''
           \<and> get (merged ! i) ''details'' =
               Inr (if truthy (get_opt (element entries i) ''details'')
                    then get_opt (element entries i) ''details'' else JArr [])
           \<and> get (merged ! i) ''title'' =
               Inr (if truthy (get_opt (jobs ! i) ''title'') then get_opt (jobs ! i) ''title''
                    else if truthy (get_opt (element entries i) ''title'')
                    then get_opt (element entries i) ''title''
                    else JStr ''Engineer'')"
proof -
  from merge_experience_defined[OF rc pd nn nu] obtain merged where
    m: "merge_experience profileData resumeContent = Inr (JArr merged)" "length merged = length jobs"
    and e: "merged ! i =
                 JObj [(''title'', js_or (get_opt (jobs ! i) ''title'')
                              (js_or (get_opt (element entries i) ''title'') (JStr ''Engineer''))),
                       (''company'', get_opt (jobs ! i) ''company''),
                       (''location'', get_opt (jobs ! i) ''location''),
                       (''start_date'', get_opt (jobs ! i) ''start_date''),
                       (''end_date'', get_opt (jobs ! i) ''end_date''),
                       (''details'', js_or (get_opt (element entries i) ''details'') (JArr []))]"
    using i by blast
  from i nn nu have "jobs ! i \<noteq> JNull" "jobs ! i \<noteq> JUndefined"
    by (metis nth_mem)+
  then have g: "get (jobs ! i) k = Inr (get_opt (jobs ! i) k)" for k by (rule get_defined)
  show ?thesis
    using m by (simp add: e g js_or_def)
qed

theorem merged_entry_fields_witness:
  "get (JObj [(''title'', JStr ''Staff Engineer''),
              (''experience'', JArr [JObj [(''title'', JStr ''Lead''), (''details'', JArr [JStr ''Led a team''])]])])
       ''experience''
     = Inr (JArr [JObj [(''title'', JStr ''Lead''), (''details'', JArr [JStr ''Led a team''])]])
   \<and> get (JObj [(''name'', JStr ''Jane Doe''),
                (''experience'', JArr [JObj [(''company'', JStr ''Acme''), (''location'', JStr ''Berlin'')]])])
       ''experience''
     = Inr (JArr [JObj [(''company'', JStr ''Acme''), (''location'', JStr ''Berlin'')]])
   \<and> JNull \<notin> set [JObj [(''company'', JStr ''Acme''), (''location'', JStr ''Berlin'')]]
   \<and> JUndefined \<notin> set [JObj [(''company'', JStr ''Acme''), (''location'', JStr ''Berlin'')]]
   \<and> (0::nat) < length [JObj [(''company'', JStr ''Acme''), (''location'', JStr ''Berlin'')]]
   \<and> (\<exists>merged.
         merge_experience
           (JObj [(''name'', JStr ''Jane Doe''),
                  (''experience'', JArr [JObj [(''company'', JStr ''Acme''), (''location'', JStr ''Berlin'')]])])
           (JObj [(''title'', JStr ''Staff Engineer''),
                  (''experience'', JArr [JObj [(''title'', JStr ''Lead''), (''details'', JArr [JStr ''Led a team''])]])])
           = Inr (JArr merged)
         \<and> length merged = 1
         \<and> get (merged ! 0) ''company'' = Inr (JStr ''Acme'')
         \<and> get (merged ! 0) ''location'' = Inr (JStr ''Berlin'')
         \<and> get (merged ! 0) ''start_date'' = Inr JUndefined
         \<and> get (merged ! 0) ''end_date'' = Inr JUndefined
         \<and> get (merged ! 0) ''details'' = Inr (JArr [JStr ''Led a team''])
         \<and> get (merged ! 0) ''title'' = Inr (JStr ''Lead''))"
  using merged_entry_fields[of
      "JObj [(''title'', JStr ''Staff Engineer''),
              (''experience'', JArr [JObj [(''title'', JStr ''Lead''), (''details'', JArr [JStr ''Led a team''])]])]"
      "[JObj [(''title'', JStr ''Lead''), (''details'', JArr [JStr ''Led a team''])]]"
      "JObj [(''name'', JStr ''Jane Doe''),
                (''experience'', JArr [JObj [(''company'', JStr ''Acme''), (''location'', JStr ''Berlin'')]])]"
      "[JObj [(''company'', JStr ''Acme''), (''location'', JStr ''Berlin'')]]" 0]
  by (simp add: get_opt_def element_def)

text \<open>
  Claim C1 as it is written fails: a submitted title does not override the title of the
  profile job. The profile job is titled \<open>Developer\<close>, the submitted entry \<open>Lead\<close>, and the
  merged entry is titled \<open>Developer\<close>.
\<close>

theorem title_override_counterexample:
  "merge_experience
     (JObj [(''experience'', JArr [JObj [(''title'', JStr ''Developer''), (''company'', JStr ''Acme'')]])])
     (JObj [(''experience'', JArr [JObj [(''title'', JStr ''Lead''), (''details'', JArr [JStr ''Led a team''])]])])
   = Inr (JArr [JObj [(''title'', JStr ''Developer''),
                      (''company'', JStr ''Acme''),
                      (''location'', JUndefined),
                      (''start_date'', JUndefined),
                      (''end_date'', JUndefined),
                      (''details'', JArr [JStr ''Led a team''])]])
   \<and> get_opt (JObj [(''title'', JStr ''Lead''), (''details'', JArr [JStr ''Led a team''])]) ''title''
       = JStr ''Lead''
   \<and> JStr ''Developer'' \<noteq> JStr ''Lead''"
  by (simp add: merge_experience_def array_map_def merge_job_def then_do_def get_opt_def js_or_def
        element_def)

text \<open>
  Claim C4. With \<open>m\<close> profile jobs and \<open>n\<close> submitted entries the merged list has exactly
  \<open>m\<close> entries; an entry at an index from \<open>n\<close> on has the empty detail list; and the
  submitted entries from index \<open>m\<close> on are ignored: content that stops after the first \<open>m\<close>
  entries merges to the same list. In particular two jobs and one submitted entry give
  two merged entries, the second with no details, as the instance after the theorem
  shows.
\<close>

theorem merged_experience_length:
  assumes rc: "get resumeContent ''experience'' = Inr (JArr entries)"
    and pd: "get profileData ''experience'' = Inr (JArr jobs)"
    and nn: "JNull \<notin> set jobs" and nu: "JUndefined \<notin> set jobs"
  shows "\<exists>merged. merge_experience profileData resumeContent = Inr (JArr merged)
           \<and> length merged = length jobs
           \<and> (\<forall>i < length jobs. length entries \<le> i \<longrightarrow> get (merged ! i) ''details'' = Inr (JArr []))
           \<and> (\<forall>other. get other ''experience'' = Inr (JArr (take (length jobs) entries))
                 \<longrightarrow> merge_experience profileData other = Inr (JArr merged))"
proof -
  let ?E = "\<lambda>es i. JObj [(''title'', js_or (get_opt (jobs ! i) ''title'')
                              (js_or (get_opt (element es i) ''title'') (JStr ''Engineer''))),
                       (''company'', get_opt (jobs ! i) ''company''),
                       (''location'', get_opt (jobs ! i) ''location''),
                       (''start_date'', get_opt (jobs ! i) ''start_date''),
                       (''end_date'', get_opt (jobs ! i) ''end_date''),
                       (''details'', js_or (get_opt (element es i) ''details'') (JArr []))]"
  from merge_experience_defined[OF rc pd nn nu] obtain merged where
    m: "merge_experience profileData resumeContent = Inr (JArr merged)" "length merged = length jobs"
    and e: "\<forall>i < length jobs. merged ! i = ?E entries i"
    by blast
  have padded: "get (merged ! i) ''details'' = Inr (JArr [])"
    if "i < length jobs" "length entries \<le> i" for i
    using that e by (simp add: element_def get_opt_def js_or_def)
  have ignored: "merge_experience profileData other = Inr (JArr merged)"
    if o: "get other ''experience'' = Inr (JArr (take (length jobs) entries))" for other
  proof -
    from merge_experience_defined[OF o pd nn nu] obtain merged' where
      m': "merge_experience profileData other = Inr (JArr merged')" "length merged' = length jobs"
      and e': "\<forall>i < length jobs. merged' ! i = ?E (take (length jobs) entries) i"
      by blast
    have "element (take (length jobs) entries) i = element entries i" if "i < length jobs" for i
      using that by (simp add: element_def)
    with e e' have "\<forall>i < length jobs. merged' ! i = merged ! i" by simp
    with m(2) m'(2) have "merged' = merged" by (simp add: list_eq_iff_nth_eq)
    with m'(1) show ?thesis by simp
  qed
  from m padded ignored show ?thesis by blast
qed

theorem merged_experience_length_witness:
  "get (JObj [(''experience'', JArr [JObj [(''details'', JArr [JStr ''Shipped it''])]])]) ''experience''
     = Inr (JArr [JObj [(''details'', JArr [JStr ''Shipped it''])]])
   \<and> get (JObj [(''experience'', JArr [JObj [(''company'', JStr ''Acme'')], JObj [(''company'', JStr ''Initech'')]])])
        ''experience''
     = Inr (JArr [JObj [(''company'', JStr ''Acme'')], JObj [(''company'', JStr ''Initech'')]])
   \<and> JNull \<notin> set [JObj [(''company'', JStr ''Acme'')], JObj [(''company'', JStr ''Initech'')]]
   \<and> JUndefined \<notin> set [JObj [(''company'', JStr ''Acme'')], JObj [(''company'', JStr ''Initech'')]]
   \<and> (\<exists>merged.
         merge_experience
           (JObj [(''experience'', JArr [JObj [(''company'', JStr ''Acme'')], JObj [(''company'', JStr ''Initech'')]])])
           (JObj [(''experience'', JArr [JObj [(''details'', JArr [JStr ''Shipped it''])]])])
           = Inr (JArr merged)
         \<and> length merged = 2
         \<and> get (merged ! 1) ''details'' = Inr (JArr []))"
proof -
  have "\<exists>merged.
         merge_experience
           (JObj [(''experience'', JArr [JObj [(''company'', JStr ''Acme'')], JObj [(''company'', JStr ''Initech'')]])])
           (JObj [(''experience'', JArr [JObj [(''details'', JArr [JStr ''Shipped it''])]])])
           = Inr (JArr merged)
         \<and> length merged = 2
         \<and> get (merged ! 1) ''details'' = Inr (JArr [])"
    using merged_experience_length[of
      "JObj [(''experience'', JArr [JObj [(''details'', JArr [JStr ''Shipped it''])]])]"
      "[JObj [(''details'', JArr [JStr ''Shipped it''])]]"
      "JObj [(''experience'', JArr [JObj [(''company'', JStr ''Acme'')], JObj [(''company'', JStr ''Initech'')]])]"
      "[JObj [(''company'', JStr ''Acme'')], JObj [(''company'', JStr ''Initech'')]]"]
    by auto
  then show ?thesis by simp
qed

text \<open>
  Claim C10. Where the title of profile job \<open>i\<close> and the title of submitted entry \<open>i\<close> are
  both absent or falsy (also when there is no submitted entry \<open>i\<close> at all), the merged
  entry is titled \<open>Engineer\<close>.
\<close>

theorem default_title_engineer:
  assumes rc: "get resumeContent ''experience'' = Inr (JArr entries)"
    and pd: "get profileData ''experience'' = Inr (JArr jobs)"
    and nn: "JNull \<notin> set jobs" and nu: "JUndefined \<notin> set jobs"
    and i: "i < length jobs"
    and job_title: "\<not> truthy (get_opt (jobs ! i) ''title'')"
    and entry_title: "\<not> truthy (get_opt (element entries i) ''title'')"
  shows "\<exists>merged. merge_experience profileData resumeContent = Inr (JArr merged)
           \<and> get (merged ! i) ''title'' = Inr (JStr ''Engineer'')"
proof -
  from merge_experience_defined[OF rc pd nn nu] i obtain merged where
    m: "merge_experience profileData resumeContent = Inr (JArr merged)"
    and e: "merged ! i =
                 JObj [(''title'', js_or (get_opt (jobs ! i) ''title'')
                              (js_or (get_opt (element entries i) ''title'') (JStr ''Engineer''))),
                       (''company'', get_opt (jobs ! i) ''company''),
                       (''location'', get_opt (jobs ! i) ''location''),
                       (''start_date'', get_opt (jobs ! i) ''start_date''),
                       (''end_date'', get_opt (jobs ! i) ''end_date''),
                       (''details'', js_or (get_opt (element entries i) ''details'') (JArr []))]"
    by blast
  from m show ?thesis using job_title entry_title by (simp add: e js_or_def)
qed

theorem default_title_engineer_witness:
  "get (JObj [(''experience'', JArr [JObj [(''title'', JStr []), (''details'', JArr [JStr ''Shipped it''])]])])
       ''experience''
     = Inr (JArr [JObj [(''title'', JStr []), (''details'', JArr [JStr ''Shipped it''])]])
   \<and> get (JObj [(''experience'', JArr [JObj [(''title'', JNull)], JObj [(''company'', JStr ''Initech'')]])])
        ''experience''
     = Inr (JArr [JObj [(''title'', JNull)], JObj [(''company'', JStr ''Initech'')]])
   \<and> JNull \<notin> set [JObj [(''title'', JNull)], JObj [(''company'', JStr ''Initech'')]]
   \<and> JUndefined \<notin> set [JObj [(''title'', JNull)], JObj [(''company'', JStr ''Initech'')]]
   \<and> (0::nat) < length [JObj [(''title'', JNull)], JObj [(''company'', JStr ''Initech'')]]
   \<and> \<not> truthy (get_opt ([JObj [(''title'', JNull)], JObj [(''company'', JStr ''Initech'')]] ! 0) ''title'')
   \<and> \<not> truthy (get_opt (element [JObj [(''title'', JStr []), (''details'', JArr [JStr ''Shipped it''])]] 0) ''title'')
   \<and> (\<exists>merged.
         merge_experience
           (JObj [(''experience'', JArr [JObj [(''title'', JNull)], JObj [(''company'', JStr ''Initech'')]])])
           (JObj [(''experience'', JArr [JObj [(''title'', JStr []), (''details'', JArr [JStr ''Shipped it''])]])])
           = Inr (JArr merged)
         \<and> get (merged ! 0) ''title'' = Inr (JStr ''Engineer''))"
  using default_title_engineer[of
      "JObj [(''experience'', JArr [JObj [(''title'', JStr []), (''details'', JArr [JStr ''Shipped it''])]])]"
      "[JObj [(''title'', JStr []), (''details'', JArr [JStr ''Shipped it''])]]"
      "JObj [(''experience'', JArr [JObj [(''title'', JNull)], JObj [(''company'', JStr ''Initech'')]])]"
      "[JObj [(''title'', JNull)], JObj [(''company'', JStr ''Initech'')]]" 0]
  by (simp add: get_opt_def element_def)

section \<open>Properties of the required-field check\<close>

lemma validate_required_falsy:
  assumes "k \<in> {''title'', ''summary'', ''skills'', ''experience''}"
    and "\<not> truthy (get_opt (JObj members) k)"
  shows "validate_required (JObj members) = Inl (Error missing_fields_message)"
  using assms by (auto simp add: validate_required_def then_do_def get_opt_def)

lemma normalize_parsed:
  assumes "extract_json jd = Inr content"
    and "parse_resume content = Inr resumeContent"
  shows "normalize jd = then_do (validate_required resumeContent) (\<lambda>u. Inr resumeContent)"
  using assms by (simp add: normalize_def then_do_def)

text \<open>
  Claim C2, as the code has it. When the parsed content object lacks any of the four
  required top-level fields, normalization fails with an error whose message is one fixed
  text: it lists all four required fields and is the same whichever of them is missing.
\<close>

theorem missing_field_rejected:
  assumes "extract_json jd = Inr content"
    and "parse_resume content = Inr (JObj members)"
    and "k \<in> {''title'', ''summary'', ''skills'', ''experience''}"
    and "map_of members k = None"
  shows "normalize jd =
           Inl (Error ''JSON missing required fields (title, summary, skills, or experience)'')"
proof -
  from assms(4) have "\<not> truthy (get_opt (JObj members) k)"
    by (simp add: get_opt_def)
  from validate_required_falsy[OF assms(3) this] normalize_parsed[OF assms(1,2)]
  show ?thesis by (simp add: then_do_def missing_fields_message_def)
qed

theorem missing_field_rejected_witness:
  \<open>extract_json ''Here you go: {"title":"A","summary":"B","experience":[]} Thanks!''
     = Inr ''{"title":"A","summary":"B","experience":[]}''
   \<and> parse_resume ''{"title":"A","summary":"B","experience":[]}''
     = Inr (JObj [(''title'', JStr ''A''), (''summary'', JStr ''B''), (''experience'', JArr [])])
   \<and> ''skills'' \<in> {''title'', ''summary'', ''skills'', ''experience''}
   \<and> map_of [(''title'', JStr ''A''), (''summary'', JStr ''B''), (''experience'', JArr [])] ''skills'' = None
   \<and> normalize ''Here you go: {"title":"A","summary":"B","experience":[]} Thanks!''
     = Inl (Error ''JSON missing required fields (title, summary, skills, or experience)'')\<close>
proof -
  have e: \<open>extract_json ''Here you go: {"title":"A","summary":"B","experience":[]} Thanks!''
     = Inr ''{"title":"A","summary":"B","experience":[]}''\<close>
    by code_simp
  have p: \<open>parse_resume ''{"title":"A","summary":"B","experience":[]}''
     = Inr (JObj [(''title'', JStr ''A''), (''summary'', JStr ''B''), (''experience'', JArr [])])\<close>
    by code_simp
  have k: "''skills'' \<in> {''title'', ''summary'', ''skills'', ''experience''}"
    by simp
  have a: "map_of [(''title'', JStr ''A''), (''summary'', JStr ''B''), (''experience'', JArr [])] ''skills'' = None"
    by simp
  from missing_field_rejected[OF e p k a] e p k a show ?thesis
    by blast
qed

text \<open>
  Claim C2 as it is written fails: the message does not tell which field is missing.
  Content without a title and content without an experience list fail with the same
  message, which names all four fields, the present ones too.
\<close>

theorem missing_fields_message_counterexample:
  \<open>normalize ''{"summary":"B","skills":{},"experience":[]}''
     = Inl (Error ''JSON missing required fields (title, summary, skills, or experience)'')
   \<and> normalize ''{"title":"A","summary":"B","skills":{}}''
     = Inl (Error ''JSON missing required fields (title, summary, skills, or experience)'')\<close>
  by code_simp

text \<open>
  Claim C9. The check tests truthiness, not the presence of the key: a parsed content
  object in which one of title, summary, skills and experience is present but falsy
  (the empty string, \<open>null\<close>, \<open>false\<close> or zero) fails with the missing-fields error.
\<close>

theorem falsy_field_rejected:
  assumes "extract_json jd = Inr content"
    and "parse_resume content = Inr (JObj members)"
    and "k \<in> {''title'', ''summary'', ''skills'', ''experience''}"
    and "map_of members k = Some v"
    and "\<not> truthy v"
  shows "normalize jd = Inl (Error missing_fields_message)"
proof -
  from assms(4,5) have "\<not> truthy (get_opt (JObj members) k)"
    by (simp add: get_opt_def)
  from validate_required_falsy[OF assms(3) this] normalize_parsed[OF assms(1,2)]
  show ?thesis by (simp add: then_do_def)
qed

theorem falsy_field_rejected_witness:
  \<open>extract_json ''{"title":"","summary":"B","skills":null,"experience":[]}''
     = Inr ''{"title":"","summary":"B","skills":null,"experience":[]}''
   \<and> parse_resume ''{"title":"","summary":"B","skills":null,"experience":[]}''
     = Inr (JObj [(''title'', JStr []), (''summary'', JStr ''B''), (''skills'', JNull), (''experience'', JArr [])])
   \<and> ''skills'' \<in> {''title'', ''summary'', ''skills'', ''experience''}
   \<and> map_of [(''title'', JStr []), (''summary'', JStr ''B''), (''skills'', JNull), (''experience'', JArr [])]
         ''skills'' = Some JNull
   \<and> \<not> truthy JNull
   \<and> normalize ''{"title":"","summary":"B","skills":null,"experience":[]}''
     = Inl (Error missing_fields_message)\<close>
proof -
  have e: \<open>extract_json ''{"title":"","summary":"B","skills":null,"experience":[]}''
     = Inr ''{"title":"","summary":"B","skills":null,"experience":[]}''\<close>
    by code_simp
  have p: \<open>parse_resume ''{"title":"","summary":"B","skills":null,"experience":[]}''
     = Inr (JObj [(''title'', JStr []), (''summary'', JStr ''B''), (''skills'', JNull), (''experience'', JArr [])])\<close>
    by code_simp
  have k: "''skills'' \<in> {''title'', ''summary'', ''skills'', ''experience''}"
    by simp
  have a: "map_of [(''title'', JStr []), (''summary'', JStr ''B''), (''skills'', JNull), (''experience'', JArr [])]
         ''skills'' = Some JNull"
    by simp
  have f: "\<not> truthy JNull"
    by simp
  from falsy_field_rejected[OF e p k a f] e p k a f show ?thesis
    by blast
qed

section \<open>Properties of the repair pass\<close>

lemma ahead_Cons: "ahead cls (c # s) = (if is_space c then ahead cls s else cls c)"
  by (simp add: ahead_def)

lemma space_not_comma: "is_space c \<Longrightarrow> \<not> is_comma c"
  by (auto simp add: is_space_def is_comma_def)

lemma closer_not_comma: "is_closer c \<Longrightarrow> \<not> is_comma c"
  by (auto simp add: is_closer_def is_comma_def)

subsection \<open>The first replacement takes out the trailing commas\<close>

lemma trailing_copy:
  "\<not> is_comma c \<Longrightarrow>
     replace_all match_trailing_comma tl pos (c # s)
       = c # replace_all match_trailing_comma tl (Suc pos) s"
  by (simp add: match_trailing_comma_def)

lemma trailing_skip:
  "ahead is_closer s \<Longrightarrow>
     replace_all match_trailing_comma tl pos s
       = take (Suc (length (takeWhile is_space s))) s
         @ replace_all match_trailing_comma tl (pos + Suc (length (takeWhile is_space s)))
             (drop (Suc (length (takeWhile is_space s))) s)"
proof (induction s arbitrary: pos)
  case Nil
  then show ?case by (simp add: ahead_def)
next
  case (Cons c s)
  show ?case
  proof (cases "is_space c")
    case True
    with Cons.prems have "ahead is_closer s" by (simp add: ahead_Cons)
    moreover from True
    have "replace_all match_trailing_comma tl pos (c # s)
            = c # replace_all match_trailing_comma tl (Suc pos) s"
      by (intro trailing_copy space_not_comma)
    ultimately show ?thesis using Cons.IH[of "Suc pos"] True
      by (simp del: replace_all.simps)
  next
    case False
    with Cons.prems have "is_closer c" by (simp add: ahead_Cons)
    then have "replace_all match_trailing_comma tl pos (c # s)
            = c # replace_all match_trailing_comma tl (Suc pos) s"
      by (intro trailing_copy closer_not_comma)
    with False show ?thesis
      by (simp del: replace_all.simps)
  qed
qed

lemma ahead_with_commas_plain:
  "ahead cls (with_commas ps) \<Longrightarrow> \<not> cls (CHR '','') \<Longrightarrow> ahead cls (plain ps)"
proof (induction ps)
  case Nil
  then show ?case by simp
next
  case (Cons p ps)
  show ?case
  proof (cases p)
    case (Keep c)
    with Cons show ?thesis by (simp add: ahead_Cons split: if_splits)
  next
    case Surplus
    with Cons.prems show ?thesis
      by (simp add: ahead_Cons is_space_def)
  qed
qed

lemma remove_trailing_commas:
  assumes "well_placed ps"
    and "\<not> occurs match_trailing_comma (plain ps)"
  shows "replace_all match_trailing_comma tl pos (with_commas ps)
           = with_commas (without_trailing ps)"
  using assms
proof (induction ps arbitrary: pos)
  case Nil
  then show ?case by (simp add: match_trailing_comma_def)
next
  case (Cons p ps)
  show ?case
  proof (cases p)
    case (Keep c)
    from Cons.prems Keep have wp: "well_placed ps"
      and free: "\<not> occurs match_trailing_comma (plain ps)"
      and here: "match_trailing_comma 0 (c # plain ps) = None"
      by simp_all
    have "match_trailing_comma pos (c # with_commas ps) = None"
    proof (cases "is_comma c \<and> ahead is_closer (with_commas ps)")
      case True
      then have "ahead is_closer (plain ps)"
        by (auto intro: ahead_with_commas_plain simp add: is_closer_def)
      with True here show ?thesis by (simp add: match_trailing_comma_def)
    next
      case False
      then show ?thesis by (auto simp add: match_trailing_comma_def)
    qed
    with Cons.IH[OF wp free, of "Suc pos"] Keep show ?thesis by simp
  next
    case Surplus
    from Cons.prems Surplus have wp: "well_placed ps"
      and free: "\<not> occurs match_trailing_comma (plain ps)"
      and placed: "ahead is_closer (with_commas ps) \<or> doubles ps"
      by simp_all
    note IH = Cons.IH[OF wp free]
    show ?thesis
    proof (cases "ahead is_closer (with_commas ps)")
      case True
      let ?k = "length (takeWhile is_space (with_commas ps))"
      from True have "match_trailing_comma pos (CHR '','' # with_commas ps) = Some (Suc (Suc ?k))"
        by (simp add: match_trailing_comma_def is_comma_def)
      then have "replace_all match_trailing_comma tl pos (with_commas (Surplus # ps))
                   = take (Suc ?k) (with_commas ps)
                     @ replace_all match_trailing_comma tl (pos + Suc (Suc ?k))
                         (drop (Suc ?k) (with_commas ps))"
        by simp
      also have "\<dots> = replace_all match_trailing_comma tl (Suc pos) (with_commas ps)"
        using trailing_skip[OF True, of "Suc pos"] by simp
      also have "\<dots> = with_commas (without_trailing ps)"
        by (rule IH)
      finally show ?thesis using Surplus True by simp
    next
      case False
      with placed have "doubles ps" by simp
      then obtain ps' where ps: "ps = Keep (CHR '','') # ps'"
        by (cases ps rule: doubles.cases) (auto simp add: is_comma_def)
      then have "\<not> ahead is_closer (with_commas ps)"
        by (simp add: ahead_Cons is_space_def is_closer_def)
      then have "match_trailing_comma pos (CHR '','' # with_commas ps) = None"
        by (simp add: match_trailing_comma_def)
      with IH[of "Suc pos"] Surplus False show ?thesis by simp
    qed
  qed
qed

subsection \<open>The second replacement takes out the doubled commas\<close>

lemma double_copy:
  "\<not> (is_comma c \<and> ahead is_comma s) \<Longrightarrow>
     replace_all match_double_comma (\<lambda>w. '','') pos (c # s)
       = c # replace_all match_double_comma (\<lambda>w. '','') (Suc pos) s"
  by (auto simp add: match_double_comma_def)

lemma ahead_comma_without_trailing:
  assumes "well_placed ps"
    and "ahead is_comma (with_commas (without_trailing ps))"
  shows "ahead is_comma (plain ps)"
  using assms
proof (induction ps)
  case Nil
  then show ?case by simp
next
  case (Cons p ps)
  show ?case
  proof (cases p)
    case (Keep c)
    with Cons show ?thesis by (simp add: ahead_Cons split: if_splits)
  next
    case Surplus
    show ?thesis
    proof (cases "ahead is_closer (with_commas ps)")
      case True
      with Cons Surplus show ?thesis by simp
    next
      case False
      with Cons.prems Surplus have "doubles ps" by simp
      then obtain ps' where "ps = Keep (CHR '','') # ps'"
        by (cases ps rule: doubles.cases) (auto simp add: is_comma_def)
      with Surplus show ?thesis
        by (simp add: ahead_Cons is_space_def is_comma_def)
    qed
  qed
qed

lemma collapse_double_commas:
  assumes "well_placed ps"
    and "\<not> occurs match_double_comma (plain ps)"
  shows "replace_all match_double_comma (\<lambda>w. '','') pos (with_commas (without_trailing ps))
           = plain ps"
  using assms
proof (induction ps arbitrary: pos)
  case Nil
  then show ?case by (simp add: match_double_comma_def)
next
  case (Cons p ps)
  show ?case
  proof (cases p)
    case (Keep c)
    from Cons.prems Keep have wp: "well_placed ps"
      and free: "\<not> occurs match_double_comma (plain ps)"
      and here: "match_double_comma 0 (c # plain ps) = None"
      by simp_all
    from here have "\<not> (is_comma c \<and> ahead is_comma (plain ps))"
      by (auto simp add: match_double_comma_def)
    with ahead_comma_without_trailing[OF wp]
    have "\<not> (is_comma c \<and> ahead is_comma (with_commas (without_trailing ps)))"
      by blast
    from double_copy[OF this] Cons.IH[OF wp free, of "Suc pos"] Keep show ?thesis
      by simp
  next
    case Surplus
    from Cons.prems Surplus have wp: "well_placed ps"
      and free: "\<not> occurs match_double_comma (plain ps)"
      and placed: "ahead is_closer (with_commas ps) \<or> doubles ps"
      by simp_all
    note IH = Cons.IH[OF wp free]
    show ?thesis
    proof (cases "ahead is_closer (with_commas ps)")
      case True
      with IH[of pos] Surplus show ?thesis by simp
    next
      case False
      with placed have "doubles ps" by simp
      then obtain ps' where ps: "ps = Keep (CHR '','') # ps'"
        by (cases ps rule: doubles.cases) (auto simp add: is_comma_def)
      let ?W = "with_commas (without_trailing ps')"
      from wp ps have wp': "well_placed ps'" by simp
      from free ps have "match_double_comma 0 (CHR '','' # plain ps') = None" by simp
      then have "\<not> ahead is_comma (plain ps')"
        by (auto simp add: match_double_comma_def is_comma_def)
      with ahead_comma_without_trailing[OF wp'] have "\<not> ahead is_comma ?W"
        by blast
      then have "replace_all match_double_comma (\<lambda>w. '','') (Suc pos) (CHR '','' # ?W)
                   = CHR '','' # replace_all match_double_comma (\<lambda>w. '','') (Suc (Suc pos)) ?W"
        by (intro double_copy) simp
      with IH[of "Suc pos"] ps
      have rest: "replace_all match_double_comma (\<lambda>w. '','') (Suc (Suc pos)) ?W = plain ps'"
        by simp
      have "match_double_comma pos (CHR '','' # CHR '','' # ?W) = Some (Suc (Suc 0))"
        by (simp add: match_double_comma_def is_comma_def ahead_Cons is_space_def)
      then have "replace_all match_double_comma (\<lambda>w. '','') pos (CHR '','' # CHR '','' # ?W)
                   = CHR '','' # replace_all match_double_comma (\<lambda>w. '','') (Suc (Suc pos)) ?W"
        by simp
      with rest Surplus False ps show ?thesis by simp
    qed
  qed
qed

lemma fix_content_marked:
  assumes "well_placed ps"
    and "\<not> occurs match_trailing_comma (plain ps)"
    and "\<not> occurs match_double_comma (plain ps)"
  shows "fix_content (with_commas ps) = plain ps"
  using remove_trailing_commas[OF assms(1,2), of 0] collapse_double_commas[OF assms(1,3), of 0]
  by (simp add: fix_content_def)

lemma normalize_extracted:
  "extract_json jd = Inr content \<Longrightarrow>
     normalize jd = then_do (parse_resume content) (\<lambda>resumeContent.
                      then_do (validate_required resumeContent) (\<lambda>u. Inr resumeContent))"
  by (simp add: normalize_def then_do_def)

text \<open>
  Claim C5, as the code has it. Take an input whose extracted span fails strict parsing
  and is a text \<open>t\<close> with surplus commas added, each of them standing before optional
  white space and a closing bracket or brace, or directly before a comma of \<open>t\<close>, where
  \<open>t\<close> itself has no comma followed by optional white space and a closing bracket, brace
  or comma anywhere, string literals included. Then the one repair pass gives back
  exactly \<open>t\<close>, and when \<open>t\<close> parses, normalization returns what normalizing \<open>t\<close>
  returns. And for every input: when the parse of the repaired text fails too,
  normalization fails with the message of the first parse.
\<close>

theorem repair_of_surplus_commas:
  assumes "extract_json jd = Inr (with_commas ps)"
    and "well_placed ps"
    and "\<not> occurs match_trailing_comma (plain ps)"
    and "\<not> occurs match_double_comma (plain ps)"
    and "JSON_parse (with_commas ps) = Inl parseError"
  shows "fix_content (with_commas ps) = plain ps
       \<and> (\<forall>resumeContent other.
             JSON_parse (plain ps) = Inr resumeContent \<and> extract_json other = Inr (plain ps)
             \<longrightarrow> normalize jd = normalize other)
       \<and> (\<forall>submitted content first second.
             extract_json submitted = Inr content \<and> JSON_parse content = Inl first
             \<and> JSON_parse (fix_content content) = Inl second
             \<longrightarrow> normalize submitted
                  = Inl (Error (''Invalid JSON format: '' @ message first
                                @ ''. Please check your JSON syntax.'')))"
proof (intro conjI allI impI)
  show fixed: "fix_content (with_commas ps) = plain ps"
    using assms(2-4) by (rule fix_content_marked)
  show "normalize jd = normalize other"
    if "JSON_parse (plain ps) = Inr resumeContent \<and> extract_json other = Inr (plain ps)"
    for resumeContent other
  proof -
    from that assms(5) fixed
    have "parse_resume (with_commas ps) = Inr resumeContent"
      and "parse_resume (plain ps) = Inr resumeContent"
      by (simp_all add: parse_resume_def)
    with normalize_extracted[OF assms(1)] normalize_extracted[of other "plain ps"] that
    show ?thesis by simp
  qed
  show "normalize submitted
          = Inl (Error (''Invalid JSON format: '' @ message first
                        @ ''. Please check your JSON syntax.''))"
    if "extract_json submitted = Inr content \<and> JSON_parse content = Inl first
        \<and> JSON_parse (fix_content content) = Inl second"
    for submitted content first second
    using that by (simp add: normalize_def parse_resume_def then_do_def)
qed

theorem repair_of_surplus_commas_witness:
  \<open>extract_json ''{"title":"A","summary":"B","skills":{},"experience":[],}''
     = Inr (with_commas (map Keep ''{"title":"A","summary":"B","skills":{},"experience":[]''
                         @ [Surplus, Keep (CHR ''}'')]))
   \<and> well_placed (map Keep ''{"title":"A","summary":"B","skills":{},"experience":[]''
                  @ [Surplus, Keep (CHR ''}'')])
   \<and> \<not> occurs match_trailing_comma
         (plain (map Keep ''{"title":"A","summary":"B","skills":{},"experience":[]''
                 @ [Surplus, Keep (CHR ''}'')]))
   \<and> \<not> occurs match_double_comma
         (plain (map Keep ''{"title":"A","summary":"B","skills":{},"experience":[]''
                 @ [Surplus, Keep (CHR ''}'')]))
   \<and> JSON_parse (with_commas (map Keep ''{"title":"A","summary":"B","skills":{},"experience":[]''
                               @ [Surplus, Keep (CHR ''}'')]))
     = Inl (SyntaxError ''Unexpected token in JSON at position 55'')
   \<and> fix_content (with_commas (map Keep ''{"title":"A","summary":"B","skills":{},"experience":[]''
                                @ [Surplus, Keep (CHR ''}'')]))
     = plain (map Keep ''{"title":"A","summary":"B","skills":{},"experience":[]''
              @ [Surplus, Keep (CHR ''}'')])
   \<and> normalize ''{"title":"A","summary":"B","skills":{},"experience":[],}''
     = normalize ''{"title":"A","summary":"B","skills":{},"experience":[]}''
   \<and> normalize ''{"title":"A","summary":"B","skills":{},"experience":[]}''
     = Inr (JObj [(''title'', JStr ''A''), (''summary'', JStr ''B''),
                  (''skills'', JObj []), (''experience'', JArr [])])\<close>
proof -
  let ?ps = \<open>map Keep ''{"title":"A","summary":"B","skills":{},"experience":[]''
             @ [Surplus, Keep (CHR ''}'')]\<close>
  have e: \<open>extract_json ''{"title":"A","summary":"B","skills":{},"experience":[],}''
            = Inr (with_commas ?ps)\<close>
    by code_simp
  have w: "well_placed ?ps"
    by code_simp
  have t: "\<not> occurs match_trailing_comma (plain ?ps)"
    by code_simp
  have d: "\<not> occurs match_double_comma (plain ?ps)"
    by code_simp
  have s: "JSON_parse (with_commas ?ps) = Inl (SyntaxError ''Unexpected token in JSON at position 55'')"
    by code_simp
  have p: \<open>JSON_parse (plain ?ps)
            = Inr (JObj [(''title'', JStr ''A''), (''summary'', JStr ''B''),
                         (''skills'', JObj []), (''experience'', JArr [])])\<close>
    by code_simp
  have o: \<open>extract_json ''{"title":"A","summary":"B","skills":{},"experience":[]}''
            = Inr (plain ?ps)\<close>
    by code_simp
  have n: \<open>normalize ''{"title":"A","summary":"B","skills":{},"experience":[]}''
     = Inr (JObj [(''title'', JStr ''A''), (''summary'', JStr ''B''),
                  (''skills'', JObj []), (''experience'', JArr [])])\<close>
    by code_simp
  note r = repair_of_surplus_commas[OF e w t d s]
  from r have f: "fix_content (with_commas ?ps) = plain ?ps"
    by blast
  from r p o
  have \<open>normalize ''{"title":"A","summary":"B","skills":{},"experience":[],}''
          = normalize ''{"title":"A","summary":"B","skills":{},"experience":[]}''\<close>
    by blast
  with e w t d s f n show ?thesis
    by blast
qed

text \<open>
  Claim C5 as it is written fails twice over. A text that differs from one that
  normalizes by two trailing commas only is not repaired: the first replacement takes
  one of the two, the second finds no pair left, and normalization fails. And a trailing
  comma in a text with a string that holds \<open>,}\<close> is repaired together with the string:
  normalization succeeds, with a title that is not the one of the comma-free text.
\<close>

theorem repair_counterexample:
  \<open>JSON_parse ''{"title":"A","summary":"B","skills":{},"experience":[],,}''
     = Inl (SyntaxError ''Unexpected token in JSON at position 55'')
   \<and> normalize ''{"title":"A","summary":"B","skills":{},"experience":[]}''
     = Inr (JObj [(''title'', JStr ''A''), (''summary'', JStr ''B''),
                  (''skills'', JObj []), (''experience'', JArr [])])
   \<and> normalize ''{"title":"A","summary":"B","skills":{},"experience":[],,}''
     = Inl (Error ''Invalid JSON format: Unexpected token in JSON at position 55. Please check your JSON syntax.'')
   \<and> normalize ''{"title":"A,}","summary":"B","skills":{},"experience":[],}''
     = Inr (JObj [(''title'', JStr ''A}''), (''summary'', JStr ''B''),
                  (''skills'', JObj []), (''experience'', JArr [])])
   \<and> normalize ''{"title":"A,}","summary":"B","skills":{},"experience":[]}''
     = Inr (JObj [(''title'', JStr ''A,}''), (''summary'', JStr ''B''),
                  (''skills'', JObj []), (''experience'', JArr [])])\<close>
  by code_simp

section \<open>Properties of the file name\<close>

lemma class_with_flag_i:
  "(is_lower (to_lower c) \<or> is_digit (to_lower c)) = spec_alnum c"
proof (cases "is_upper c")
  case True
  then have "(of_char c :: nat) + 32 < 256"
    by (simp add: is_upper_def Let_def)
  then have "(of_char (char_of ((of_char c :: nat) + 32)) :: nat) = of_char c + 32"
    by simp
  with True show ?thesis
    by (simp add: to_lower_def is_lower_def is_digit_def is_upper_def spec_alnum_def in_range_def Let_def)
next
  case False
  then show ?thesis
    by (auto simp add: to_lower_def is_lower_def is_digit_def is_upper_def spec_alnum_def in_range_def Let_def)
qed

lemma replace_non_alnum:
  "replace_all match_non_alnum (\<lambda>w. ''_'') pos s
     = map (\<lambda>c. if spec_alnum c then c else CHR ''_'') s"
proof (induction s arbitrary: pos)
  case Nil
  then show ?case by (simp add: match_non_alnum_def)
next
  case (Cons c cs)
  with class_with_flag_i[of c] show ?case by (simp add: match_non_alnum_def)
qed

lemma spec_collapse_other:
  "c \<noteq> CHR ''_'' \<Longrightarrow> spec_collapse (c # cs) = c # spec_collapse cs"
  by (cases cs) simp_all

lemma spec_collapse_underscore:
  "spec_collapse (CHR ''_'' # cs) = CHR ''_'' # spec_collapse (dropWhile (\<lambda>c. c = CHR ''_'') cs)"
proof (induction cs)
  case Nil
  then show ?case by simp
next
  case (Cons d ds)
  then show ?case by (cases "d = CHR ''_''") (simp_all add: spec_collapse_other)
qed

lemma replace_underscores:
  "replace_all match_underscores (\<lambda>w. ''_'') pos s = spec_collapse s"
proof (induction s arbitrary: pos rule: length_induct)
  case (1 s)
  show ?case
  proof (cases s)
    case Nil
    then show ?thesis by (simp add: match_underscores_def)
  next
    case (Cons c cs)
    show ?thesis
    proof (cases "c = CHR ''_''")
      case False
      have "replace_all match_underscores (\<lambda>w. ''_'') (Suc pos) cs = spec_collapse cs"
        using 1 Cons by simp
      moreover from False have "match_underscores pos (c # cs) = None"
        by (simp add: match_underscores_def)
      ultimately show ?thesis using False Cons
        by (simp add: spec_collapse_other)
    next
      case True
      let ?n = "length (takeWhile (\<lambda>c. c = CHR ''_'') cs)"
      have "length (drop ?n cs) < length s" using Cons by simp
      with 1 have "replace_all match_underscores (\<lambda>w. ''_'') (pos + Suc ?n) (drop ?n cs)
                     = spec_collapse (drop ?n cs)"
        by blast
      moreover have "drop ?n cs = dropWhile (\<lambda>c. c = CHR ''_'') cs"
        by (simp add: dropWhile_eq_drop)
      moreover from True have "match_underscores pos (c # cs) = Some (Suc ?n)"
        by (simp add: match_underscores_def)
      ultimately show ?thesis using True Cons
        by (simp add: spec_collapse_underscore)
    qed
  qed
qed

lemma spec_collapse_head:
  "spec_collapse (b # cs) \<noteq> [] \<and> hd (spec_collapse (b # cs)) = b"
proof (induction cs arbitrary: b)
  case Nil
  then show ?case by simp
next
  case (Cons c cs)
  from Cons[of c] show ?case by auto
qed

lemma spec_collapse_single:
  "successively (\<lambda>a b. \<not> (a = CHR ''_'' \<and> b = CHR ''_'')) (spec_collapse s)"
proof (induction s rule: spec_collapse.induct)
  case (1 a b cs)
  then show ?case
    using spec_collapse_head[of b cs] by (auto simp add: successively_Cons)
qed simp_all

lemma strip_leading:
  assumes "successively (\<lambda>a b. \<not> (a = CHR ''_'' \<and> b = CHR ''_'')) (c # cs)"
  shows "dropWhile (\<lambda>c. c = CHR ''_'') (c # cs) = (if c = CHR ''_'' then cs else c # cs)"
  using assms by (cases cs) (auto simp add: successively_Cons)

lemma strip_trailing:
  assumes "successively (\<lambda>a b. \<not> (a = CHR ''_'' \<and> b = CHR ''_'')) t"
  shows "rev (dropWhile (\<lambda>c. c = CHR ''_'') (rev t))
           = (if t \<noteq> [] \<and> last t = CHR ''_'' then butlast t else t)"
proof (cases t rule: rev_cases)
  case Nil
  then show ?thesis by simp
next
  case (snoc ys y)
  with assms have "successively (\<lambda>a b. \<not> (a = CHR ''_'' \<and> b = CHR ''_'')) (rev (y # rev ys))"
    by simp
  then have "successively (\<lambda>a b. \<not> (a = CHR ''_'' \<and> b = CHR ''_'')) (y # rev ys)"
    by (simp only: successively_rev conj_commute)
  from strip_leading[OF this] snoc show ?thesis by simp
qed

lemma replace_edge_later:
  "0 < pos \<Longrightarrow>
     replace_all match_edge_underscore (\<lambda>w. []) pos s
       = (if s \<noteq> [] \<and> last s = CHR ''_'' then butlast s else s)"
proof (induction s arbitrary: pos)
  case Nil
  then show ?case by (simp add: match_edge_underscore_def)
next
  case (Cons c cs)
  from Cons.IH[of "Suc pos"] Cons.prems show ?case
    by (simp add: match_edge_underscore_def)
qed

lemma sanitizeFilename_refines: "sanitizeFilename str = spec_sanitize str"
proof -
  let ?t = "spec_collapse (map (\<lambda>c. if spec_alnum c then c else CHR ''_'') str)"
  have single: "successively (\<lambda>a b. \<not> (a = CHR ''_'' \<and> b = CHR ''_'')) ?t"
    by (rule spec_collapse_single)
  have "replace_all match_edge_underscore (\<lambda>w. []) 0 ?t = spec_strip ?t"
  proof (cases ?t)
    case Nil
    then show ?thesis by (simp add: spec_strip_def match_edge_underscore_def)
  next
    case (Cons c cs)
    with single have cs: "successively (\<lambda>a b. \<not> (a = CHR ''_'' \<and> b = CHR ''_'')) cs"
      and ccs: "successively (\<lambda>a b. \<not> (a = CHR ''_'' \<and> b = CHR ''_'')) (c # cs)"
      by (auto simp add: successively_Cons)
    have later: "replace_all match_edge_underscore (\<lambda>w. []) (Suc 0) cs
                   = (if cs \<noteq> [] \<and> last cs = CHR ''_'' then butlast cs else cs)"
      by (rule replace_edge_later) simp
    show ?thesis
    proof (cases "c = CHR ''_''")
      case True
      with Cons later strip_leading[OF ccs] strip_trailing[OF cs] show ?thesis
        by (simp add: spec_strip_def match_edge_underscore_def)
    next
      case False
      with Cons later strip_leading[OF ccs] strip_trailing[OF ccs] show ?thesis
        by (simp add: spec_strip_def match_edge_underscore_def)
    qed
  qed
  then show ?thesis
    by (simp add: sanitizeFilename_def spec_sanitize_def replace_non_alnum replace_underscores)
qed

text \<open>
  Claim C7. For all strings \<open>name\<close>, \<open>company\<close> and \<open>role\<close>, the file name the code
  derives with its three regular-expression replacements is the one the specification
  describes: each part sanitized on its own (a character outside \<open>[A-Za-z0-9]\<close> becomes an
  underscore, runs of underscores collapse, underscores at the two ends are stripped),
  the parts joined with underscores, \<open>.pdf\<close> appended. The example of the specification
  comes out as stated.
\<close>

theorem filename_refines_spec:
  "filename name company role = spec_filename name company role
   \<and> filename ''Jane Doe'' ''Acme, Inc.'' ''Sr. Eng!'' = ''Jane_Doe_Acme_Inc_Sr_Eng.pdf''"
proof
  show "filename name company role = spec_filename name company role"
    by (simp add: filename_def spec_filename_def sanitizeFilename_refines)
  show "filename ''Jane Doe'' ''Acme, Inc.'' ''Sr. Eng!'' = ''Jane_Doe_Acme_Inc_Sr_Eng.pdf''"
    by code_simp
qed

section \<open>Properties of the profile store\<close>

text \<open>
  A path of plain segments is what \<open>path.join\<close> leaves as it is, and joining plain
  segments to it appends them.
\<close>

lemma split_path_not_Nil:
  "split_path s \<noteq> []"
  by (induction s) (auto split: list.splits)

lemma split_path_segment:
  "CHR ''/'' \<notin> set a \<Longrightarrow> split_path (a @ s) = (a @ hd (split_path s)) # tl (split_path s)"
proof (induction a)
  case Nil
  from split_path_not_Nil[of s] show ?case by simp
next
  case (Cons c a)
  then have "c \<noteq> CHR ''/''" "CHR ''/'' \<notin> set a" by auto
  with Cons.IH show ?case by simp
qed

lemma absolute_path_Cons:
  "absolute_path (seg # segs) = CHR ''/'' # seg @ absolute_path segs"
  by (simp add: absolute_path_def)

lemma absolute_path_append:
  "absolute_path (segs @ others) = absolute_path segs @ absolute_path others"
  by (simp add: absolute_path_def)

lemma split_path_absolute:
  assumes "\<And>seg. seg \<in> set segs \<Longrightarrow> plain_segment seg"
    and "segs \<noteq> []"
  shows "split_path (absolute_path segs) = [] # segs"
  using assms
proof (induction segs)
  case Nil
  then show ?case by simp
next
  case (Cons seg segs)
  from Cons.prems(1)[of seg] have slash: "CHR ''/'' \<notin> set seg"
    by (simp add: plain_segment_def)
  show ?case
  proof (cases "segs = []")
    case True
    with split_path_segment[OF slash, of "[]"] show ?thesis
      by (simp add: absolute_path_def)
  next
    case False
    with Cons have "split_path (absolute_path segs) = [] # segs" by simp
    with split_path_segment[OF slash, of "absolute_path segs"] show ?thesis
      by (simp add: absolute_path_Cons)
  qed
qed

lemma resolve_plain_segments:
  assumes "\<And>seg. seg \<in> set segs \<Longrightarrow> plain_segment seg"
  shows "resolve_segments allowAboveRoot res segs = res @ segs"
  using assms
proof (induction segs arbitrary: res)
  case Nil
  then show ?case by simp
next
  case (Cons seg segs)
  from Cons.prems[of seg] have "seg \<noteq> []" "seg \<noteq> ''.''" "seg \<noteq> ''..''"
    by (simp_all add: plain_segment_def)
  with Cons show ?case by simp
qed

lemma join_with_slash_absolute:
  "segs \<noteq> [] \<Longrightarrow> CHR ''/'' # join_with_slash segs = absolute_path segs"
  by (induction segs rule: join_with_slash.induct) (simp_all add: absolute_path_def)

lemma join_with_slash_not_Nil:
  "segs \<noteq> [] \<Longrightarrow> hd segs \<noteq> [] \<Longrightarrow> join_with_slash segs \<noteq> []"
  by (induction segs rule: join_with_slash.induct) simp_all

lemma last_absolute_path:
  assumes "\<And>seg. seg \<in> set segs \<Longrightarrow> plain_segment seg"
    and "segs \<noteq> []"
  shows "last (absolute_path segs) \<noteq> CHR ''/''"
proof -
  from assms(2) obtain front seg where segs: "segs = front @ [seg]"
    by (cases segs rule: rev_cases) auto
  with assms(1)[of seg] have seg: "seg \<noteq> []" "CHR ''/'' \<notin> set seg"
    by (simp_all add: plain_segment_def)
  from segs have "absolute_path segs = absolute_path front @ CHR ''/'' # seg"
    by (simp add: absolute_path_def)
  with seg(1) have "last (absolute_path segs) = last seg" by simp
  with seg show ?thesis by (metis last_in_set)
qed

lemma path_normalize_absolute:
  assumes "\<And>seg. seg \<in> set segs \<Longrightarrow> plain_segment seg"
    and "segs \<noteq> []"
  shows "path_normalize (absolute_path segs) = absolute_path segs"
proof -
  from assms(2) obtain seg rest where segs: "segs = seg # rest" by (cases segs) auto
  then have hd: "absolute_path segs \<noteq> []" "hd (absolute_path segs) = CHR ''/''"
    by (simp_all add: absolute_path_Cons)
  from segs assms(1)[of seg] have "hd segs \<noteq> []"
    by (simp add: plain_segment_def)
  with assms(2) have filled: "join_with_slash segs \<noteq> []"
    by (rule join_with_slash_not_Nil)
  have resolved: "resolve_segments False [] (split_path (absolute_path segs)) = segs"
    using split_path_absolute[OF assms] resolve_plain_segments[OF assms(1), where allowAboveRoot = False and res = "[]"]
    by simp
  from hd resolved filled join_with_slash_absolute[OF assms(2)] last_absolute_path[OF assms]
  show ?thesis
    by (simp add: path_normalize_def Let_def)
qed

lemma path_join_plain:
  assumes "\<And>seg. seg \<in> set segs \<Longrightarrow> plain_segment seg"
    and "segs \<noteq> []"
    and "plain_segment a"
    and "plain_segment b"
  shows "path_join [absolute_path segs, a, b] = absolute_path segs @ ''/'' @ a @ ''/'' @ b"
proof -
  from assms(2) obtain seg rest where "segs = seg # rest" by (cases segs) auto
  then have nonempty: "absolute_path segs \<noteq> []"
    by (simp add: absolute_path_Cons)
  from assms(3,4) have ab: "a \<noteq> []" "b \<noteq> []"
    by (simp_all add: plain_segment_def)
  have all: "\<And>seg. seg \<in> set (segs @ [a, b]) \<Longrightarrow> plain_segment seg"
    using assms(1,3,4) by auto
  have joined: "join_with_slash [absolute_path segs, a, b] = absolute_path (segs @ [a, b])"
    by (simp add: absolute_path_append absolute_path_def)
  from nonempty have "absolute_path (segs @ [a, b]) \<noteq> []"
    by (simp add: absolute_path_append)
  with joined nonempty ab have "path_join [absolute_path segs, a, b] = path_normalize (absolute_path (segs @ [a, b]))"
    by (simp add: path_join_def Let_def)
  also have "\<dots> = absolute_path (segs @ [a, b])"
  proof (rule path_normalize_absolute)
    show "segs @ [a, b] \<noteq> []" by simp
  next
    fix seg
    assume "seg \<in> set (segs @ [a, b])"
    then show "plain_segment seg" by (rule all)
  qed
  finally show ?thesis
    by (simp add: absolute_path_append absolute_path_def)
qed

lemma profile_file_name_plain:
  "CHR ''/'' \<notin> set profileName \<Longrightarrow> plain_segment (profileName @ ''.json'')"
  by (cases profileName rule: rev_cases) (auto simp add: plain_segment_def append_eq_Cons_conv)

lemma profile_path_plain:
  assumes "cwd fs = absolute_path segs"
    and "\<And>seg. seg \<in> set segs \<Longrightarrow> plain_segment seg"
    and "segs \<noteq> []"
    and "CHR ''/'' \<notin> set profileName"
  shows "path_join [cwd fs, ''resumes'', profileName @ ''.json'']
           = cwd fs @ ''/resumes/'' @ profileName @ ''.json''"
proof -
  have "plain_segment ''resumes''" by (simp add: plain_segment_def)
  from path_join_plain[OF assms(2,3) this profile_file_name_plain[OF assms(4)]] assms(1)
  show ?thesis by simp
qed

text \<open>
  Every entry of the cache of a running process was read from the file its identifier
  resolves to, and the stored files do not change: an identifier in the cache resolves
  to a file.
\<close>

lemma loadProfile_cached_stored:
  assumes "\<And>p. cache p \<noteq> None \<Longrightarrow> entry_at fs (path_join [cwd fs, ''resumes'', p @ ''.json'']) \<noteq> None"
    and "snd (loadProfile fs cache name) p \<noteq> None"
  shows "entry_at fs (path_join [cwd fs, ''resumes'', p @ ''.json'']) \<noteq> None"
proof (cases "cache name")
  case (Some cached)
  with assms show ?thesis by (simp add: loadProfile_def)
next
  case None
  show ?thesis
  proof (cases "existsSync fs (path_join [cwd fs, ''resumes'', name @ ''.json''])")
    case False
    with None assms show ?thesis by (simp add: loadProfile_def)
  next
    case True
    show ?thesis
    proof (cases "p = name")
      case True
      with \<open>existsSync fs (path_join [cwd fs, ''resumes'', name @ ''.json''])\<close> show ?thesis
        by (simp add: existsSync_def)
    next
      case False
      with None True assms(2) have "cache p \<noteq> None"
        by (simp add: loadProfile_def split: sum.splits)
      then show ?thesis by (rule assms(1))
    qed
  qed
qed

lemma foldl_loadProfile_stored:
  assumes "\<And>p. cache p \<noteq> None \<Longrightarrow> entry_at fs (path_join [cwd fs, ''resumes'', p @ ''.json'']) \<noteq> None"
    and "foldl (\<lambda>cache name. snd (loadProfile fs cache name)) cache names p \<noteq> None"
  shows "entry_at fs (path_join [cwd fs, ''resumes'', p @ ''.json'']) \<noteq> None"
  using assms
proof (induction names arbitrary: cache)
  case Nil
  then show ?case by simp
next
  case (Cons name names)
  have "\<And>q. snd (loadProfile fs cache name) q \<noteq> None
          \<Longrightarrow> entry_at fs (path_join [cwd fs, ''resumes'', q @ ''.json'']) \<noteq> None"
    using Cons.prems(1) by (rule loadProfile_cached_stored)
  from Cons.IH[OF this] Cons.prems(2) show ?case by simp
qed

lemma cache_after_stored:
  "cache_after fs names p \<noteq> None
     \<Longrightarrow> entry_at fs (path_join [cwd fs, ''resumes'', p @ ''.json'']) \<noteq> None"
  unfolding cache_after_def by (rule foldl_loadProfile_stored[of Map.empty]) simp_all

text \<open>
  What holds of the identifiers that are file names. For an identifier without a \<open>/\<close>
  that is not stored, \<open>loadProfile\<close> returns \<open>null\<close> and leaves the cache of a running
  process as it was, with no entry for the identifier, and the handler answers a
  well-formed request for it with status 404, before anything is parsed or rendered and
  without acquiring a browser session.
\<close>

lemma unstored_file_name_not_found:
  assumes \<open>cwd (files env) = absolute_path segs\<close>
    and \<open>\<And>seg. seg \<in> set segs \<Longrightarrow> plain_segment seg\<close>
    and \<open>segs \<noteq> []\<close>
    and \<open>CHR ''/'' \<notin> set profile\<close>
    and \<open>\<not> spec_stored (files env) profile\<close>
    and \<open>req_method req = ''POST''\<close>
    and \<open>req_profile req = Some profile\<close>
    and \<open>profile \<noteq> []\<close>
    and \<open>\<not> absent (req_jd req)\<close>
    and \<open>\<not> absent (req_company req)\<close>
    and \<open>\<not> absent (req_role req)\<close>
  shows \<open>loadProfile (files env) (cache_after (files env) names) profile
            = (Inr JNull, cache_after (files env) names)
         \<and> cache_after (files env) names profile = None
         \<and> handler env (cache_after (files env) names) templateCache req
            = (send 404 (''Profile "'' @ profile @ ''" not found''),
               cache_after (files env) names, templateCache, NotAcquired)\<close>
proof -
  from assms(4,5) profile_path_plain[OF assms(1-4)]
  have missing: "entry_at (files env) (path_join [cwd (files env), ''resumes'', profile @ ''.json'']) = None"
    by (simp add: spec_stored_def)
  with cache_after_stored[of "files env" names profile]
  have fresh: "cache_after (files env) names profile = None" by blast
  with missing have load: "loadProfile (files env) (cache_after (files env) names) profile
            = (Inr JNull, cache_after (files env) names)"
    by (simp add: loadProfile_def existsSync_def)
  from assms(6-11) load
  have \<open>handler env (cache_after (files env) names) templateCache req
            = (send 404 (''Profile "'' @ profile @ ''" not found''),
               cache_after (files env) names, templateCache, NotAcquired)\<close>
    by (simp add: handler_def generate_def absent_def)
  with fresh load show ?thesis by simp
qed

lemma unstored_file_name_example:
  \<open>\<not> spec_stored sample_files ''bob''
   \<and> handler sample_environment (cache_after sample_files [''jane'', ''bob''])
         Map.empty (sample_request\<lparr>req_profile := Some ''bob''\<rparr>)
       = (send 404 ''Profile "bob" not found'',
          cache_after sample_files [''jane'', ''bob''], Map.empty, NotAcquired)\<close>
proof -
  let ?req = "sample_request\<lparr>req_profile := Some ''bob''\<rparr>"
  have c: "cwd (files sample_environment) = absolute_path [''app'']"
    by (simp add: sample_environment_def sample_files_def absolute_path_def)
  have s: "\<And>seg. seg \<in> set [''app''] \<Longrightarrow> plain_segment seg"
    by (simp add: plain_segment_def)
  have u: "\<not> spec_stored (files sample_environment) ''bob''"
    by (simp add: sample_environment_def sample_files_def spec_stored_def)
  have j: "\<not> absent (req_jd ?req)" "\<not> absent (req_company ?req)" "\<not> absent (req_role ?req)"
    by (simp_all add: sample_request_def absent_def)
  have m: "req_method ?req = ''POST''"
    by (simp add: sample_request_def)
  from unstored_file_name_not_found[OF c s _ _ u m _ _ j, of "[''jane'', ''bob'']" Map.empty] u
  show ?thesis by (simp add: sample_environment_def)
qed

text \<open>
  Claim C8. An identifier that is no stored one can still resolve to a file, because
  \<open>path.join\<close> resolves the \<open>/\<close>, \<open>.\<close> and \<open>..\<close> inside it and \<open>loadProfile\<close> hands the
  identifier over as it came in the request. In the sample deployment \<open>../package\<close> is not
  stored and resolves to the package manifest of the application: \<open>loadProfile\<close> returns
  the manifest as the profile and enters it in the cache under \<open>../package\<close>, and the
  handler goes on to merge it and answers 500, not 404. Likewise \<open>./jane\<close> is not stored
  and resolves to the record stored as \<open>jane\<close>: \<open>loadProfile\<close> returns that record and
  enters it in the cache a second time, under \<open>./jane\<close>, and the handler answers 200.
\<close>

theorem path_in_identifier_loads_file:
  \<open>\<not> spec_stored sample_files ''../package''
   \<and> path_join [cwd sample_files, ''resumes'', ''../package'' @ ''.json''] = ''/app/package.json''
   \<and> fst (loadProfile sample_files Map.empty ''../package'')
       = Inr (JObj [(''name'', JStr ''resume-app''), (''private'', JBool True)])
   \<and> snd (loadProfile sample_files Map.empty ''../package'') ''../package''
       = Some (JObj [(''name'', JStr ''resume-app''), (''private'', JBool True)])
   \<and> fst (handler sample_environment Map.empty Map.empty
            (sample_request\<lparr>req_profile := Some ''../package''\<rparr>))
       = send 500 ''PDF generation failed: Cannot read properties of undefined (reading map)''
   \<and> fst (snd (handler sample_environment Map.empty Map.empty
            (sample_request\<lparr>req_profile := Some ''../package''\<rparr>))) ''../package''
       = Some (JObj [(''name'', JStr ''resume-app''), (''private'', JBool True)])
   \<and> \<not> spec_stored sample_files ''./jane''
   \<and> path_join [cwd sample_files, ''resumes'', ''./jane'' @ ''.json''] = ''/app/resumes/jane.json''
   \<and> fst (loadProfile sample_files Map.empty ''./jane'')
       = Inr (JObj [(''name'', JStr ''Jane Doe''),
                    (''experience'', JArr [JObj [(''title'', JStr ''Developer''),
                                                 (''company'', JStr ''Acme'')]])])
   \<and> snd (loadProfile sample_files Map.empty ''./jane'') ''./jane''
       = Some (JObj [(''name'', JStr ''Jane Doe''),
                     (''experience'', JArr [JObj [(''title'', JStr ''Developer''),
                                                  (''company'', JStr ''Acme'')]])])
   \<and> status (fst (handler sample_environment Map.empty Map.empty
            (sample_request\<lparr>req_profile := Some ''./jane''\<rparr>))) = 200\<close>
proof (intro conjI)
  show \<open>\<not> spec_stored sample_files ''../package''\<close>
    by (simp add: spec_stored_def)
  show \<open>path_join [cwd sample_files, ''resumes'', ''../package'' @ ''.json''] = ''/app/package.json''\<close>
    by code_simp
  show \<open>fst (loadProfile sample_files Map.empty ''../package'')
       = Inr (JObj [(''name'', JStr ''resume-app''), (''private'', JBool True)])\<close>
    by code_simp
  show \<open>snd (loadProfile sample_files Map.empty ''../package'') ''../package''
       = Some (JObj [(''name'', JStr ''resume-app''), (''private'', JBool True)])\<close>
    by code_simp
  show \<open>fst (handler sample_environment Map.empty Map.empty
            (sample_request\<lparr>req_profile := Some ''../package''\<rparr>))
       = send 500 ''PDF generation failed: Cannot read properties of undefined (reading map)''\<close>
    by code_simp
  show \<open>fst (snd (handler sample_environment Map.empty Map.empty
            (sample_request\<lparr>req_profile := Some ''../package''\<rparr>))) ''../package''
       = Some (JObj [(''name'', JStr ''resume-app''), (''private'', JBool True)])\<close>
    by code_simp
  show \<open>\<not> spec_stored sample_files ''./jane''\<close>
    by (simp add: spec_stored_def)
  show \<open>path_join [cwd sample_files, ''resumes'', ''./jane'' @ ''.json''] = ''/app/resumes/jane.json''\<close>
    by code_simp
  show \<open>fst (loadProfile sample_files Map.empty ''./jane'')
       = Inr (JObj [(''name'', JStr ''Jane Doe''),
                    (''experience'', JArr [JObj [(''title'', JStr ''Developer''),
                                                 (''company'', JStr ''Acme'')]])])\<close>
    by code_simp
  show \<open>snd (loadProfile sample_files Map.empty ''./jane'') ''./jane''
       = Some (JObj [(''name'', JStr ''Jane Doe''),
                     (''experience'', JArr [JObj [(''title'', JStr ''Developer''),
                                                  (''company'', JStr ''Acme'')]])])\<close>
    by code_simp
  show \<open>status (fst (handler sample_environment Map.empty Map.empty
            (sample_request\<lparr>req_profile := Some ''./jane''\<rparr>))) = 200\<close>
    by code_simp
qed

section \<open>Properties of the template registry\<close>

text \<open>
  What the check of the template name is there for: a name that is no property of
  \<open>TEMPLATE_OPTIONS\<close> at all, the blank name among them, is served as \<open>default\<close> is.
\<close>

lemma getTemplate_no_property:
  assumes "template_option requested = NoProperty"
  shows "getTemplate (Suc depth) fs templateCache requested
           = getTemplate (Suc depth) fs templateCache ''default''"
proof -
  have "template_option ''default'' = TemplateFile ''Resume.html''"
    by (simp add: template_option_def TEMPLATE_OPTIONS_def)
  with assms show ?thesis by simp
qed

lemma getTemplate_inherited:
  assumes "template_option requested = InheritedProperty"
    and "templateCache requested = None"
  shows "getTemplate (Suc depth) fs templateCache requested
           = (Inl (TypeError ''The path argument must be of type string''), templateCache)"
  using assms by simp

lemma blank_template_no_property: "template_option [] = NoProperty"
  by (simp add: template_option_def TEMPLATE_OPTIONS_def object_prototype_keys_def)

text \<open>
  Claim C6 fails on the code for the names every object inherits. The identifier
  \<open>constructor\<close> is not in the registry, yet \<open>TEMPLATE_OPTIONS[templateName]\<close> finds the
  inherited function, the check of line 33 lets the name pass, and \<open>path.join\<close> throws
  on it: \<open>getTemplate\<close> returns no layout, and the handler answers with status 500 where
  the same request with the default identifier gets its PDF.
\<close>

theorem inherited_template_name_throws:
  \<open>map_of TEMPLATE_OPTIONS ''constructor'' = None
   \<and> getTemplate 1000 sample_files Map.empty ''constructor''
       = (Inl (TypeError ''The path argument must be of type string''), Map.empty)
   \<and> fst (getTemplate 1000 sample_files Map.empty ''default'') = Inr (Compiled ''<h1>{{name}}</h1>'')
   \<and> fst (handler sample_environment Map.empty Map.empty
             (sample_request\<lparr>req_template := Some ''constructor''\<rparr>))
       = \<lparr>status = 500, headers = [],
          body = ''PDF generation failed: The path argument must be of type string''\<rparr>
   \<and> status (fst (handler sample_environment Map.empty Map.empty
                     (sample_request\<lparr>req_template := Some ''default''\<rparr>))) = 200\<close>
proof (intro conjI)
  show "map_of TEMPLATE_OPTIONS ''constructor'' = None"
    by (simp add: TEMPLATE_OPTIONS_def)
  have inherited: "template_option ''constructor'' = InheritedProperty"
    by (simp add: template_option_def TEMPLATE_OPTIONS_def object_prototype_keys_def)
  from getTemplate_inherited[of "''constructor''" Map.empty 999 sample_files] inherited
  show "getTemplate 1000 sample_files Map.empty ''constructor''
       = (Inl (TypeError ''The path argument must be of type string''), Map.empty)"
    by simp
  show \<open>fst (getTemplate 1000 sample_files Map.empty ''default'') = Inr (Compiled ''<h1>{{name}}</h1>'')\<close>
    by code_simp
  show \<open>fst (handler sample_environment Map.empty Map.empty
             (sample_request\<lparr>req_template := Some ''constructor''\<rparr>))
       = \<lparr>status = 500, headers = [],
          body = ''PDF generation failed: The path argument must be of type string''\<rparr>\<close>
    by code_simp
  show \<open>status (fst (handler sample_environment Map.empty Map.empty
                     (sample_request\<lparr>req_template := Some ''default''\<rparr>))) = 200\<close>
    by code_simp
qed

section \<open>Properties of the render pipeline\<close>

text \<open>The path that does release the session: every call returns, and \<open>close\<close> is the last.\<close>

lemma rasterize_closes_on_success:
  assumes "launch env = Inr ()" and "newPage env = Inr ()" and "setContent env html = Inr ()"
    and "pdf env html = Inr pdfBuffer" and "close env = Inr ()"
  shows "rasterize env html = (Inr pdfBuffer, Closed)"
  using assms by (simp add: rasterize_def)

text \<open>
  Claim C3 fails on the code. \<open>browser.close()\<close> stands only at the end of the path on
  which every call returns (line 248); the \<open>catch\<close> block does not close, and there is no
  \<open>finally\<close>. Once the session is acquired, an exception from opening the page, from
  loading the markup or from generating the PDF leaves the session open when the render
  pipeline exits.
\<close>

theorem session_left_open_on_failure:
  assumes "launch env = Inr ()"
    and "newPage env = Inl e
         \<or> (newPage env = Inr () \<and> setContent env html = Inl e)
         \<or> (newPage env = Inr () \<and> setContent env html = Inr () \<and> pdf env html = Inl e)"
  shows "rasterize env html = (Inl e, Open)"
  using assms by (auto simp add: rasterize_def)

theorem session_left_open_on_failure_witness:
  "launch (sample_environment\<lparr>pdf := (\<lambda>html. Inl (Error ''Printing failed''))\<rparr>) = Inr ()
   \<and> newPage (sample_environment\<lparr>pdf := (\<lambda>html. Inl (Error ''Printing failed''))\<rparr>) = Inr ()
   \<and> setContent (sample_environment\<lparr>pdf := (\<lambda>html. Inl (Error ''Printing failed''))\<rparr>)
        ''<h1>Jane Doe</h1>'' = Inr ()
   \<and> pdf (sample_environment\<lparr>pdf := (\<lambda>html. Inl (Error ''Printing failed''))\<rparr>)
        ''<h1>Jane Doe</h1>'' = Inl (Error ''Printing failed'')
   \<and> rasterize (sample_environment\<lparr>pdf := (\<lambda>html. Inl (Error ''Printing failed''))\<rparr>)
        ''<h1>Jane Doe</h1>'' = (Inl (Error ''Printing failed''), Open)
   \<and> fst (handler (sample_environment\<lparr>pdf := (\<lambda>html. Inl (Error ''Printing failed''))\<rparr>)
             Map.empty Map.empty sample_request)
       = \<lparr>status = 500, headers = [], body = ''PDF generation failed: Printing failed''\<rparr>
   \<and> snd (snd (snd (handler (sample_environment\<lparr>pdf := (\<lambda>html. Inl (Error ''Printing failed''))\<rparr>)
                       Map.empty Map.empty sample_request))) = Open
   \<and> snd (snd (snd (handler sample_environment Map.empty Map.empty sample_request))) = Closed"
proof -
  let ?env = "sample_environment\<lparr>pdf := (\<lambda>html. Inl (Error ''Printing failed''))\<rparr>"
  have l: "launch ?env = Inr ()"
    by (simp add: launch_def sample_environment_def)
  have n: "newPage ?env = Inr ()"
    by (simp add: sample_environment_def)
  have s: "setContent ?env ''<h1>Jane Doe</h1>'' = Inr ()"
    by (simp add: sample_environment_def)
  have p: "pdf ?env ''<h1>Jane Doe</h1>'' = Inl (Error ''Printing failed'')"
    by simp
  from n s p have "newPage ?env = Inl (Error ''Printing failed'')
         \<or> (newPage ?env = Inr () \<and> setContent ?env ''<h1>Jane Doe</h1>'' = Inl (Error ''Printing failed''))
         \<or> (newPage ?env = Inr () \<and> setContent ?env ''<h1>Jane Doe</h1>'' = Inr ()
             \<and> pdf ?env ''<h1>Jane Doe</h1>'' = Inl (Error ''Printing failed''))"
    by blast
  note r = session_left_open_on_failure[OF l this]
  have h1: "fst (handler ?env Map.empty Map.empty sample_request)
       = \<lparr>status = 500, headers = [], body = ''PDF generation failed: Printing failed''\<rparr>"
    by code_simp
  have h2: "snd (snd (snd (handler ?env Map.empty Map.empty sample_request))) = Open"
    by code_simp
  have h3: "snd (snd (snd (handler sample_environment Map.empty Map.empty sample_request))) = Closed"
    by code_simp
  from l n s p r h1 h2 h3 show ?thesis by blast
qed

end
